theory Spec2Isabelle
  imports Complex_Main "HOL-Library.Sublist"
begin

section \<open>Conventions\<close>

text \<open>
  The repository is Python. Its unbounded integers are \<open>int\<close>, its strings are
  \<open>string\<close>, a value that may be \<open>None\<close> is an \<open>option\<close>, and a function that can
  raise returns a sum whose \<open>Inl\<close> carries the exception. Python floats are idealised as
  exact rationals (\<open>rat\<close>): the scoring formulas below are read as arithmetic over the
  rationals, not as IEEE-754 computations. Every draw from \<open>random\<close> or \<open>numpy.random\<close>
  and every answer of a remote service is an explicit input of the model.
\<close>

datatype py_error =
    AttributeError string
  | KeyError string
  | ValueError string
  | OverflowError string
  | ZeroDivisionError string
  | RequestException string
  | StopIteration string

section \<open>banking\_intelligence\_api.py\<close>

subsection \<open>\<open>_calculate_risk_score\<close>\<close>

text \<open>
  \<open>base_draw\<close> is the value of \<open>random.randint(25, 45)\<close>, \<open>monsoon_draw\<close> the value of
  \<open>random.randint(-5, 10)\<close> (drawn only in the months 6, 7 and 8). \<open>randint\<close> includes
  both end points.
\<close>

record risk_draws =
  base_draw :: int
  monsoon_draw :: int

definition risk_draws_ok :: "risk_draws \<Rightarrow> bool" where
  "risk_draws_ok d \<longleftrightarrow>
     25 \<le> base_draw d \<and> base_draw d \<le> 45 \<and> -5 \<le> monsoon_draw d \<and> monsoon_draw d \<le> 10"

definition calculate_risk_score :: "nat \<Rightarrow> risk_draws \<Rightarrow> int" where
  "calculate_risk_score current_month d =
     (let base_score = base_draw d;
          base_score = (if current_month \<in> set [6, 7, 8]
                        then base_score + monsoon_draw d else base_score)
      in min 100 (max 0 base_score))"

subsection \<open>\<open>get_risk_assessment\<close>\<close>

text \<open>
  Of the dictionary built by \<open>get_current_parameters\<close> only
  \<open>risk_indicators.overall_risk_score\<close> decides the fields modelled here; it is computed
  once and read three times by the route.
\<close>

record risk_assessment =
  ra_overall_risk_score :: int
  ra_risk_level :: string

definition get_risk_assessment :: "nat \<Rightarrow> risk_draws \<Rightarrow> risk_assessment" where
  "get_risk_assessment current_month d =
     (let score = calculate_risk_score current_month d
      in \<lparr> ra_overall_risk_score = score,
           ra_risk_level = (if score < 30 then ''Low''
                            else if score < 60 then ''Medium'' else ''High'') \<rparr>)"

subsection \<open>\<open>get_lending_recommendation\<close>\<close>




definition dict_get :: "('k \<times> 'v) list \<Rightarrow> 'k \<Rightarrow> 'v \<Rightarrow> 'v" where
  "dict_get d k dflt = (case map_of d k of None \<Rightarrow> dflt | Some v \<Rightarrow> v)"

definition option_get :: "'a option \<Rightarrow> 'a \<Rightarrow> 'a" where
  "option_get v dflt = (case v of None \<Rightarrow> dflt | Some x \<Rightarrow> x)"



section \<open>numpy and pandas primitives used by the generators\<close>

text \<open>\<open>np.clip(a, a_min, a_max)\<close> is \<open>minimum(a_max, maximum(a, a_min))\<close>.\<close>

definition clip :: "rat \<Rightarrow> rat \<Rightarrow> rat \<Rightarrow> rat" where
  "clip a a_min a_max = min a_max (max a a_min)"

text \<open>\<open>.astype(int)\<close> on a boolean column.\<close>

definition astype_int :: "bool \<Rightarrow> int" where
  "astype_int b = (if b then 1 else 0)"

text \<open>
  Dividing one integer column by another gives a float column: a zero divisor yields an
  infinity or NaN instead of raising, and every comparison with NaN is false.
\<close>

datatype fval = Fin rat | PosInf | NegInf | NaN

definition series_div :: "int \<Rightarrow> int \<Rightarrow> fval" where
  "series_div a b =
     (if b = 0 then (if 0 < a then PosInf else if a < 0 then NegInf else NaN)
      else Fin (of_int a / of_int b))"

fun fval_times :: "fval \<Rightarrow> rat \<Rightarrow> fval" where
  "fval_times (Fin x) c = Fin (x * c)"
| "fval_times PosInf c = (if 0 < c then PosInf else if c < 0 then NegInf else NaN)"
| "fval_times NegInf c = (if 0 < c then NegInf else if c < 0 then PosInf else NaN)"
| "fval_times NaN c = NaN"

fun fval_less :: "fval \<Rightarrow> rat \<Rightarrow> bool" where
  "fval_less (Fin x) c \<longleftrightarrow> x < c"
| "fval_less NegInf c \<longleftrightarrow> True"
| "fval_less PosInf c \<longleftrightarrow> False"
| "fval_less NaN c \<longleftrightarrow> False"

fun fval_greater :: "fval \<Rightarrow> rat \<Rightarrow> bool" where
  "fval_greater (Fin x) c \<longleftrightarrow> c < x"
| "fval_greater PosInf c \<longleftrightarrow> True"
| "fval_greater NegInf c \<longleftrightarrow> False"
| "fval_greater NaN c \<longleftrightarrow> False"

text \<open>
  \<open>pd.cut(x, bins, labels, include_lowest)\<close> with the default \<open>right=True\<close>: the bin
  \<open>(bins[i], bins[i+1]]\<close> carries \<open>labels[i]\<close>, the left edge of the first bin belongs to it
  only with \<open>include_lowest\<close>, and a value in no bin becomes NaN (\<open>None\<close> here).
\<close>

fun cut_bins :: "rat \<Rightarrow> rat list \<Rightarrow> string list \<Rightarrow> rat \<Rightarrow> string option" where
  "cut_bins lo (hi # bins) (l # labels) x =
     (if lo < x \<and> x \<le> hi then Some l else cut_bins hi bins labels x)"
| "cut_bins lo _ _ x = None"

definition pd_cut :: "rat \<Rightarrow> rat list \<Rightarrow> string list \<Rightarrow> bool \<Rightarrow> string option" where
  "pd_cut x bins labels include_lowest =
     (case bins of
        [] \<Rightarrow> None
      | b0 # rest \<Rightarrow>
          if include_lowest \<and> x = b0 then (case labels of [] \<Rightarrow> None | l # _ \<Rightarrow> Some l)
          else cut_bins b0 rest labels x)"

section \<open>comprehensive\_excel\_generator.py\<close>

text \<open>The columns of a borrower row that \<open>calculate_comprehensive_risk_scores\<close> reads.\<close>

record cb_borrower =
  cb_age :: int
  cb_education_level :: string
  cb_family_size :: int
  cb_years_in_location :: int
  cb_monthly_income :: int
  cb_requested_loan_amount :: int
  cb_monthly_expenses :: int
  cb_has_bank_account :: bool
  cb_existing_loans :: int
  cb_previous_defaults :: int
  cb_savings_amount :: int
  cb_credit_score :: "int option"
  cb_owns_house :: bool
  cb_house_type :: string
  cb_owns_land :: bool
  cb_owns_vehicle :: bool
  cb_collateral_offered :: bool
  cb_collateral_value :: int
  cb_guarantor_available :: bool
  cb_shg_member :: bool
  cb_mobile_ownership :: bool
  cb_aadhaar_linked :: bool
  cb_seasonal_migration :: bool
  cb_financial_literacy_score :: int
  cb_community_reputation :: string
  cb_local_leader_recommendation :: bool
  cb_electricity_connection :: bool
  cb_water_source :: string
  cb_toilet_facility :: bool
  cb_road_connectivity :: string
  cb_internet_usage :: bool
  cb_market_access_score :: int
  cb_pan_card :: bool
  cb_insurance_life :: bool
  cb_insurance_health :: bool
  cb_credit_history_length :: int
  cb_voter_id :: bool

record cb_scored = cb_borrower +
  cb_demographic_risk_score :: rat
  cb_financial_risk_score :: rat
  cb_asset_collateral_risk_score :: rat
  cb_social_digital_risk_score :: rat
  cb_infrastructure_risk_score :: rat
  cb_documentation_risk_score :: rat
  cb_overall_risk_score :: rat
  cb_risk_category :: "string option"
  cb_default_probability :: rat
  cb_recommended_interest_rate :: rat

definition cb_demo_risk :: "cb_borrower \<Rightarrow> int" where
  "cb_demo_risk r =
     astype_int (cb_age r > 60) * 12 +
     astype_int (cb_age r < 25) * 8 +
     astype_int (cb_education_level r = ''Illiterate'') * 20 +
     astype_int (cb_family_size r > 7) * 10 +
     astype_int (cb_years_in_location r < 3) * 12"

definition cb_financial_risk :: "cb_borrower \<Rightarrow> int" where
  "cb_financial_risk r =
     (let income_loan_ratio =
            fval_times (series_div (cb_monthly_income r) (cb_requested_loan_amount r)) 1000;
          expense_ratio = series_div (cb_monthly_expenses r) (cb_monthly_income r)
      in astype_int (fval_less income_loan_ratio 6) * 25 +
         astype_int (fval_greater expense_ratio 0.85) * 20 +
         astype_int (\<not> cb_has_bank_account r) * 15 +
         astype_int (cb_existing_loans r > 2) * 20 +
         astype_int (cb_previous_defaults r > 0) * 35 +
         astype_int (cb_savings_amount r < cb_monthly_income r) * 10 +
         astype_int (option_get (cb_credit_score r) 0 < 600 \<and> cb_credit_score r \<noteq> None) * 15)"

definition cb_asset_risk :: "cb_borrower \<Rightarrow> int" where
  "cb_asset_risk r =
     astype_int (\<not> cb_owns_house r) * 12 +
     astype_int (cb_house_type r = ''Kutcha'') * 8 +
     astype_int (\<not> cb_owns_land r) * 15 +
     astype_int (\<not> cb_owns_vehicle r) * 8 +
     astype_int (\<not> cb_collateral_offered r) * 18 +
     astype_int (cb_collateral_value r < cb_requested_loan_amount r) * 15 +
     astype_int (\<not> cb_guarantor_available r) * 10"

definition cb_social_risk :: "cb_borrower \<Rightarrow> int" where
  "cb_social_risk r =
     astype_int (\<not> cb_shg_member r) * 15 +
     astype_int (\<not> cb_mobile_ownership r) * 12 +
     astype_int (\<not> cb_aadhaar_linked r) * 10 +
     astype_int (cb_seasonal_migration r) * 18 +
     astype_int (cb_financial_literacy_score r < 5) * 12 +
     astype_int (cb_community_reputation r = ''Poor'') * 20 +
     astype_int (\<not> cb_local_leader_recommendation r) * 8"

definition cb_infrastructure_risk :: "cb_borrower \<Rightarrow> int" where
  "cb_infrastructure_risk r =
     astype_int (\<not> cb_electricity_connection r) * 15 +
     astype_int (cb_water_source r \<in> set [''Hand Pump'', ''Public Tap'']) * 10 +
     astype_int (\<not> cb_toilet_facility r) * 8 +
     astype_int (cb_road_connectivity r = ''Mud'') * 12 +
     astype_int (\<not> cb_internet_usage r) * 8 +
     astype_int (cb_market_access_score r < 5) * 10"

definition cb_doc_risk :: "cb_borrower \<Rightarrow> int" where
  "cb_doc_risk r =
     astype_int (\<not> cb_pan_card r) * 20 +
     astype_int (\<not> cb_insurance_life r) * 10 +
     astype_int (\<not> cb_insurance_health r) * 12 +
     astype_int (cb_credit_history_length r = 0) * 25 +
     astype_int (\<not> cb_voter_id r) * 5"

text \<open>One row of the data frame after all column assignments of the method.\<close>

definition cb_score_row :: "cb_borrower \<Rightarrow> cb_scored" where
  "cb_score_row r =
     (let demographic_risk_score = clip (of_int (cb_demo_risk r) * 0.18) 0 100;
          financial_risk_score = clip (of_int (cb_financial_risk r) * 0.25) 0 100;
          asset_collateral_risk_score = clip (of_int (cb_asset_risk r) * 0.22) 0 100;
          social_digital_risk_score = clip (of_int (cb_social_risk r) * 0.15) 0 100;
          infrastructure_risk_score = clip (of_int (cb_infrastructure_risk r) * 0.12) 0 100;
          documentation_risk_score = clip (of_int (cb_doc_risk r) * 0.08) 0 100;
          overall_risk_score =
            demographic_risk_score * 0.18 +
            financial_risk_score * 0.25 +
            asset_collateral_risk_score * 0.22 +
            social_digital_risk_score * 0.15 +
            infrastructure_risk_score * 0.12 +
            documentation_risk_score * 0.08
      in cb_borrower.extend r
           (cb_scored.fields
              demographic_risk_score financial_risk_score asset_collateral_risk_score
              social_digital_risk_score infrastructure_risk_score documentation_risk_score
              overall_risk_score
              (pd_cut overall_risk_score [0, 20, 40, 65, 100]
                 [''Low Risk'', ''Medium Risk'', ''High Risk'', ''Very High Risk''] True)
              (clip (overall_risk_score / 100 * 0.25) 0 1)
              (12 + (overall_risk_score / 100) * 8)))"

definition ceg_calculate_comprehensive_risk_scores :: "cb_borrower list \<Rightarrow> cb_scored list" where
  "ceg_calculate_comprehensive_risk_scores df = map cb_score_row df"

section \<open>excel\_based\_data\_generator.py\<close>

record eb_borrower =
  eb_age :: int
  eb_education_level :: string
  eb_family_size :: int
  eb_years_in_location :: int
  eb_monthly_income :: int
  eb_requested_loan_amount :: int
  eb_monthly_expenses :: int
  eb_has_bank_account :: bool
  eb_existing_loans :: int
  eb_previous_defaults :: int
  eb_savings_amount :: int
  eb_owns_land :: bool
  eb_owns_vehicle :: bool
  eb_electricity_access :: bool
  eb_road_connectivity :: string
  eb_internet_access :: bool
  eb_collateral_value :: int
  eb_shg_member :: bool
  eb_mobile_ownership :: bool
  eb_aadhaar_linked :: bool
  eb_seasonal_migration :: bool
  eb_financial_literacy_score :: int
  eb_pan_card :: bool
  eb_insurance_coverage :: bool
  eb_credit_history_length :: int

record eb_scored = eb_borrower +
  eb_demographic_risk_score :: rat
  eb_financial_risk_score :: rat
  eb_asset_infrastructure_risk_score :: rat
  eb_social_behavioral_risk_score :: rat
  eb_documentation_risk_score :: rat
  eb_overall_risk_score :: rat
  eb_risk_category :: "string option"

definition eb_demo_risk :: "eb_borrower \<Rightarrow> int" where
  "eb_demo_risk r =
     astype_int (eb_age r > 55) * 15 +
     astype_int (eb_education_level r = ''Illiterate'') * 20 +
     astype_int (eb_family_size r > 6) * 10 +
     astype_int (eb_years_in_location r < 2) * 15"

definition eb_financial_risk :: "eb_borrower \<Rightarrow> int" where
  "eb_financial_risk r =
     (let income_to_loan_ratio =
            fval_times (series_div (eb_monthly_income r) (eb_requested_loan_amount r)) 1000;
          expense_ratio = series_div (eb_monthly_expenses r) (eb_monthly_income r)
      in astype_int (fval_less income_to_loan_ratio 5) * 25 +
         astype_int (fval_greater expense_ratio 0.8) * 20 +
         astype_int (\<not> eb_has_bank_account r) * 15 +
         astype_int (eb_existing_loans r > 1) * 20 +
         astype_int (eb_previous_defaults r > 0) * 30 +
         astype_int (eb_savings_amount r < eb_monthly_income r) * 10)"

definition eb_asset_risk :: "eb_borrower \<Rightarrow> int" where
  "eb_asset_risk r =
     astype_int (\<not> eb_owns_land r) * 15 +
     astype_int (\<not> eb_owns_vehicle r) * 10 +
     astype_int (\<not> eb_electricity_access r) * 15 +
     astype_int (eb_road_connectivity r = ''Mud'') * 15 +
     astype_int (\<not> eb_internet_access r) * 10 +
     astype_int (eb_collateral_value r < eb_requested_loan_amount r) * 20"

definition eb_social_risk :: "eb_borrower \<Rightarrow> int" where
  "eb_social_risk r =
     astype_int (\<not> eb_shg_member r) * 15 +
     astype_int (\<not> eb_mobile_ownership r) * 10 +
     astype_int (\<not> eb_aadhaar_linked r) * 10 +
     astype_int (eb_seasonal_migration r) * 20 +
     astype_int (eb_financial_literacy_score r < 5) * 15"

definition eb_doc_risk :: "eb_borrower \<Rightarrow> int" where
  "eb_doc_risk r =
     astype_int (\<not> eb_pan_card r) * 20 +
     astype_int (\<not> eb_insurance_coverage r) * 10 +
     astype_int (eb_credit_history_length r = 0) * 25"

definition eb_score_row :: "eb_borrower \<Rightarrow> eb_scored" where
  "eb_score_row r =
     (let demographic_risk_score = clip (of_int (eb_demo_risk r) * 0.2) 0 100;
          financial_risk_score = clip (of_int (eb_financial_risk r) * 0.3) 0 100;
          asset_infrastructure_risk_score = clip (of_int (eb_asset_risk r) * 0.25) 0 100;
          social_behavioral_risk_score = clip (of_int (eb_social_risk r) * 0.15) 0 100;
          documentation_risk_score = clip (of_int (eb_doc_risk r) * 0.1) 0 100;
          overall_risk_score =
            demographic_risk_score * 0.2 +
            financial_risk_score * 0.3 +
            asset_infrastructure_risk_score * 0.25 +
            social_behavioral_risk_score * 0.15 +
            documentation_risk_score * 0.1
      in eb_borrower.extend r
           (eb_scored.fields
              demographic_risk_score financial_risk_score asset_infrastructure_risk_score
              social_behavioral_risk_score documentation_risk_score overall_risk_score
              (pd_cut overall_risk_score [0, 25, 50, 75, 100]
                 [''Low Risk'', ''Medium Risk'', ''High Risk'', ''Very High Risk''] False)))"

definition ebg_calculate_comprehensive_risk_scores :: "eb_borrower list \<Rightarrow> eb_scored list" where
  "ebg_calculate_comprehensive_risk_scores df = map eb_score_row df"

section \<open>generate\_sample\_data.py\<close>

text \<open>
  The random draws behind one borrower of \<open>generate_sample_data\<close> that reach the risk
  score: \<open>np.random.randint(18, 65)\<close>, \<open>np.random.randint(10000, 150000)\<close> (numpy
  excludes the upper end), \<open>random.choice\<close> of the education list and
  \<open>np.random.uniform(0, 10)\<close>.
\<close>

record sd_draws =
  sd_age :: int
  sd_income :: int
  sd_education :: string
  sd_credit_history :: rat

definition sd_draws_ok :: "sd_draws \<Rightarrow> bool" where
  "sd_draws_ok d \<longleftrightarrow>
     18 \<le> sd_age d \<and> sd_age d < 65 \<and>
     10000 \<le> sd_income d \<and> sd_income d < 150000 \<and>
     sd_education d \<in> set [''none'', ''primary'', ''secondary'', ''higher''] \<and>
     0 \<le> sd_credit_history d \<and> sd_credit_history d < 10"

record sd_borrower =
  sd_risk_factors :: "(string \<times> rat) list"
  sd_overall_risk_score :: rat
  sd_risk_category :: string

text \<open>Subscripting a dictionary raises \<open>KeyError\<close> on a missing key.\<close>

definition dict_index :: "(string \<times> 'v) list \<Rightarrow> string \<Rightarrow> py_error + 'v" where
  "dict_index d k = (case map_of d k of None \<Rightarrow> Inl (KeyError k) | Some v \<Rightarrow> Inr v)"

definition sd_risk_category_of :: "rat \<Rightarrow> string" where
  "sd_risk_category_of overall_risk =
     (if overall_risk \<le> 0.2 then ''Very Low''
      else if overall_risk \<le> 0.4 then ''Low''
      else if overall_risk \<le> 0.6 then ''Medium''
      else if overall_risk \<le> 0.8 then ''High''
      else ''Very High'')"

definition sample_borrower :: "sd_draws \<Rightarrow> py_error + sd_borrower" where
  "sample_borrower d =
     (case dict_index [(''none'', 1.0), (''primary'', 0.7), (''secondary'', 0.4), (''higher'', 0.2)]
             (sd_education d) of
        Inl e \<Rightarrow> Inl e
      | Inr education_risk \<Rightarrow>
          (let risk_factors =
                 [(''age_risk'', if 25 \<le> sd_age d \<and> sd_age d \<le> 45 then 0.5 else 0.8),
                  (''income_risk'', max 0 (1 - of_int (sd_income d) / 150000)),
                  (''education_risk'', education_risk),
                  (''credit_risk'', max 0 (1 - sd_credit_history d / 10))];
               overall_risk = sum_list (map snd risk_factors) / of_nat (length risk_factors)
           in Inr \<lparr> sd_risk_factors = risk_factors,
                    sd_overall_risk_score = overall_risk,
                    sd_risk_category = sd_risk_category_of overall_risk \<rparr>))"

section \<open>generate\_enhanced\_data.py\<close>

text \<open>
  \<open>ZeroDivisionError\<close> is what \<open>/\<close> raises on Python numbers; the generator never
  divides by zero because incomes start at 5000.
\<close>

definition py_truediv :: "rat \<Rightarrow> rat \<Rightarrow> py_error + rat" where
  "py_truediv a b = (if b = 0 then Inl (ZeroDivisionError ''division by zero'') else Inr (a / b))"

text \<open>
  \<open>round(x, 4)\<close> on a float: the nearest multiple of \<open>0.0001\<close>, a tie going to the even
  one.
\<close>

definition round_half_even :: "rat \<Rightarrow> int" where
  "round_half_even y =
     (let f = \<lfloor>y\<rfloor>; d = y - of_int f
      in if d < 1 / 2 then f else if 1 / 2 < d then f + 1 else if even f then f else f + 1)"

definition py_round4 :: "rat \<Rightarrow> rat" where
  "py_round4 x = of_int (round_half_even (x * 10000)) / 10000"

definition calculate_demographic_risk :: "int \<Rightarrow> int \<Rightarrow> string \<Rightarrow> int \<Rightarrow> rat" where
  "calculate_demographic_risk age income education family_size =
     (let age_risk = (if 25 \<le> age \<and> age \<le> 50 then 0.1
                      else if age < 25 \<or> age > 60 then 0.7 else 0.4);
          income_risk = max 0 (min 1 ((30000 - of_int income) / 30000));
          education_risk_map =
            [(''illiterate'', 0.8), (''primary'', 0.6), (''secondary'', 0.4),
             (''higher_secondary'', 0.3), (''graduate'', 0.1), (''postgraduate'', 0.05)];
          education_risk = dict_get education_risk_map education 0.5;
          family_risk = min 1 (max 0 ((of_int family_size - 4) * 0.1))
      in (age_risk + income_risk + education_risk + family_risk) / 4)"

definition calculate_financial_risk ::
  "int \<Rightarrow> int \<Rightarrow> bool \<Rightarrow> int \<Rightarrow> int \<Rightarrow> py_error + rat" where
  "calculate_financial_risk credit_months existing_loans has_savings income expenses =
     (let credit_risk = (if credit_months < 24 then max 0 ((24 - of_int credit_months) / 24)
                         else 0.1);
          loan_risk = min 1 (of_int existing_loans / 3);
          savings_risk = (if has_savings then 0.2 else 0.6)
      in case py_truediv (of_int expenses) (of_int income) of
           Inl e \<Rightarrow> Inl e
         | Inr expense_ratio \<Rightarrow>
             (let expense_risk = max 0 (min 1 ((expense_ratio - 0.5) / 0.3))
              in Inr ((credit_risk + loan_risk + savings_risk + expense_risk) / 4)))"

definition calculate_asset_risk :: "bool \<Rightarrow> rat \<Rightarrow> bool \<Rightarrow> int \<Rightarrow> rat" where
  "calculate_asset_risk owns_land land_size owns_livestock livestock_count =
     (let land_risk = (if owns_land then max 0 ((2 - land_size) / 2) else 0.8);
          livestock_risk = (if owns_livestock then max 0 ((5 - of_int livestock_count) / 5)
                            else 0.6)
      in (land_risk + livestock_risk) / 2)"

definition calculate_geographic_risk :: "rat \<Rightarrow> rat \<Rightarrow> int \<Rightarrow> bool \<Rightarrow> rat" where
  "calculate_geographic_risk bank_distance market_distance road_score has_electricity =
     (let bank_risk = min 1 (bank_distance / 20);
          market_risk = min 1 (market_distance / 25);
          road_risk = (5 - of_int road_score) / 4;
          electricity_risk = (if has_electricity then 0.2 else 0.6)
      in (bank_risk + market_risk + road_risk + electricity_risk) / 4)"

definition calculate_social_risk :: "bool \<Rightarrow> bool \<Rightarrow> bool \<Rightarrow> rat" where
  "calculate_social_risk shg_member govt_beneficiary mobile_phone =
     (let shg_risk = (if shg_member then 0.2 else 0.6);
          govt_risk = (if govt_beneficiary then 0.3 else 0.5);
          mobile_risk = (if mobile_phone then 0.1 else 0.7)
      in (shg_risk + govt_risk + mobile_risk) / 3)"

definition categorize_risk :: "rat \<Rightarrow> string" where
  "categorize_risk score =
     (if score \<le> 0.2 then ''Very Low''
      else if score \<le> 0.4 then ''Low''
      else if score \<le> 0.6 then ''Medium''
      else if score \<le> 0.8 then ''High''
      else ''Very High'')"

text \<open>
  The attributes of one borrower of \<open>generate_enhanced_borrower_data\<close> that reach the
  risk scores, after they were drawn, with the ranges the draws guarantee
  (\<open>np.random.randint\<close> excludes its upper end; land and livestock are zero when not
  owned; savings only with a bank account is not needed below).
\<close>

record en_attrs =
  en_age :: int
  en_income :: int
  en_education :: string
  en_family_size :: int
  en_credit_history_months :: int
  en_existing_loans :: int
  en_has_savings_account :: bool
  en_monthly_expenses :: int
  en_owns_land :: bool
  en_land_size_acres :: rat
  en_owns_livestock :: bool
  en_livestock_count :: int
  en_distance_to_bank :: rat
  en_distance_to_market :: rat
  en_road_connectivity :: int
  en_electricity_access :: bool
  en_group_membership :: bool
  en_government_scheme_beneficiary :: bool
  en_mobile_phone_ownership :: bool

definition en_attrs_ok :: "en_attrs \<Rightarrow> bool" where
  "en_attrs_ok a \<longleftrightarrow>
     18 \<le> en_age a \<and> en_age a < 75 \<and>
     5000 \<le> en_income a \<and> en_income a < 45000 \<and>
     2 \<le> en_family_size a \<and> en_family_size a < 8 \<and>
     0 \<le> en_credit_history_months a \<and> en_credit_history_months a < 120 \<and>
     0 \<le> en_existing_loans a \<and> en_existing_loans a < 4 \<and>
     0 \<le> en_monthly_expenses a \<and>
     (if en_owns_land a then 0.1 \<le> en_land_size_acres a \<and> en_land_size_acres a < 5
      else en_land_size_acres a = 0) \<and>
     (if en_owns_livestock a then 1 \<le> en_livestock_count a \<and> en_livestock_count a < 20
      else en_livestock_count a = 0) \<and>
     0.5 \<le> en_distance_to_bank a \<and> en_distance_to_bank a < 25 \<and>
     0.2 \<le> en_distance_to_market a \<and> en_distance_to_market a < 30 \<and>
     1 \<le> en_road_connectivity a \<and> en_road_connectivity a < 5"

record en_borrower =
  en_demographic_risk :: rat
  en_financial_risk :: rat
  en_asset_risk :: rat
  en_geographic_risk :: rat
  en_social_risk :: rat
  en_overall_risk_score :: rat
  en_risk_category :: string

definition enhanced_borrower :: "en_attrs \<Rightarrow> py_error + en_borrower" where
  "enhanced_borrower a =
     (let demographic_risk =
            calculate_demographic_risk (en_age a) (en_income a) (en_education a)
              (en_family_size a)
      in case calculate_financial_risk (en_credit_history_months a) (en_existing_loans a)
                (en_has_savings_account a) (en_income a) (en_monthly_expenses a) of
           Inl e \<Rightarrow> Inl e
         | Inr financial_risk \<Rightarrow>
             (let asset_risk =
                    calculate_asset_risk (en_owns_land a) (en_land_size_acres a)
                      (en_owns_livestock a) (en_livestock_count a);
                  geographic_risk =
                    calculate_geographic_risk (en_distance_to_bank a) (en_distance_to_market a)
                      (en_road_connectivity a) (en_electricity_access a);
                  social_risk =
                    calculate_social_risk (en_group_membership a)
                      (en_government_scheme_beneficiary a) (en_mobile_phone_ownership a);
                  overall_risk =
                    demographic_risk * 0.20 +
                    financial_risk * 0.30 +
                    asset_risk * 0.20 +
                    geographic_risk * 0.20 +
                    social_risk * 0.10
              in Inr \<lparr> en_demographic_risk = py_round4 demographic_risk,
                       en_financial_risk = py_round4 financial_risk,
                       en_asset_risk = py_round4 asset_risk,
                       en_geographic_risk = py_round4 geographic_risk,
                       en_social_risk = py_round4 social_risk,
                       en_overall_risk_score = py_round4 overall_risk,
                       en_risk_category = categorize_risk overall_risk \<rparr>))"

section \<open>analyze\_excel\_data.py\<close>

text \<open>
  This module has risk functions of the same names as \<open>generate_enhanced_data.py\<close> with
  other bodies; they carry the prefix \<open>ax_\<close> here.
\<close>

definition ax_calculate_demographic_risk ::
  "int \<Rightarrow> int \<Rightarrow> string \<Rightarrow> string \<Rightarrow> py_error + rat" where
  "ax_calculate_demographic_risk age income education occupation =
     (let age_risk = (if age < 25 \<or> age > 55 then 0.3 else 0.1);
          income_risk = max 0 (1 - of_int income / 150000)
      in case dict_index [(''none'', 0.8), (''primary'', 0.6), (''secondary'', 0.4),
                          (''higher_secondary'', 0.3), (''graduate'', 0.1)] education of
           Inl e \<Rightarrow> Inl e
         | Inr education_risk \<Rightarrow>
             (let occupation_risk =
                    dict_get [(''farmer'', 0.4), (''agricultural_laborer'', 0.7),
                              (''daily_wage'', 0.8), (''small_business'', 0.5),
                              (''service'', 0.2), (''artisan'', 0.6), (''livestock'', 0.5),
                              (''fishery'', 0.6)] occupation 0.5
              in Inr ((age_risk + income_risk + education_risk + occupation_risk) / 4)))"

definition ax_calculate_financial_risk ::
  "rat \<Rightarrow> int \<Rightarrow> bool \<Rightarrow> int \<Rightarrow> int \<Rightarrow> py_error + rat" where
  "ax_calculate_financial_risk credit_score existing_loans has_savings income expenses =
     (let credit_risk = max 0 (1 - credit_score / 10);
          loan_burden_risk = min 1 (of_int existing_loans / 3);
          savings_risk = (if has_savings then 0.2 else 0.7)
      in case py_truediv (of_int expenses) (of_int income) of
           Inl e \<Rightarrow> Inl e
         | Inr ratio \<Rightarrow>
             (let expense_ratio_risk = max 0 (min 1 ratio)
              in Inr ((credit_risk + loan_burden_risk + savings_risk + expense_ratio_risk) / 4)))"

definition ax_calculate_geographic_risk :: "rat \<Rightarrow> int \<Rightarrow> rat" where
  "ax_calculate_geographic_risk market_distance infrastructure_score =
     (let distance_risk = min 1 (market_distance / 30);
          infrastructure_risk = max 0 (1 - of_int infrastructure_score / 10)
      in (distance_risk + infrastructure_risk) / 2)"

definition ax_calculate_behavioral_risk :: "rat \<Rightarrow> rat" where
  "ax_calculate_behavioral_risk seasonal_variation = seasonal_variation"

record ax_attrs =
  ax_age :: int
  ax_income :: int
  ax_education :: string
  ax_occupation :: string
  ax_credit_history_score :: rat
  ax_existing_loans :: int
  ax_has_savings :: bool
  ax_monthly_expenses :: int
  ax_market_distance :: rat
  ax_infrastructure_access :: int
  ax_seasonal_income_variation :: rat

definition ax_attrs_ok :: "ax_attrs \<Rightarrow> bool" where
  "ax_attrs_ok a \<longleftrightarrow>
     18 \<le> ax_age a \<and> ax_age a < 70 \<and>
     8000 \<le> ax_income a \<and> ax_income a < 200000 \<and>
     ax_education a \<in> set [''none'', ''primary'', ''secondary'', ''higher_secondary'', ''graduate''] \<and>
     0 \<le> ax_credit_history_score a \<and> ax_credit_history_score a < 10 \<and>
     0 \<le> ax_existing_loans a \<and> ax_existing_loans a < 4 \<and>
     4000 \<le> ax_monthly_expenses a \<and>
     of_int (ax_monthly_expenses a) < of_int (ax_income a) * (0.8 :: rat) \<and>
     1 \<le> ax_market_distance a \<and> ax_market_distance a < 50 \<and>
     1 \<le> ax_infrastructure_access a \<and> ax_infrastructure_access a < 10 \<and>
     0.1 \<le> ax_seasonal_income_variation a \<and> ax_seasonal_income_variation a < 0.8"

record ax_borrower =
  ax_demographic_risk :: rat
  ax_financial_risk :: rat
  ax_geographic_risk :: rat
  ax_behavioral_risk :: rat
  ax_overall_risk_score :: rat
  ax_risk_category :: string

definition analyzed_borrower :: "ax_attrs \<Rightarrow> py_error + ax_borrower" where
  "analyzed_borrower a =
     (case ax_calculate_demographic_risk (ax_age a) (ax_income a) (ax_education a)
             (ax_occupation a) of
        Inl e \<Rightarrow> Inl e
      | Inr demographic_risk \<Rightarrow>
          (case ax_calculate_financial_risk (ax_credit_history_score a) (ax_existing_loans a)
                  (ax_has_savings a) (ax_income a) (ax_monthly_expenses a) of
             Inl e \<Rightarrow> Inl e
           | Inr financial_risk \<Rightarrow>
               (let geographic_risk =
                      ax_calculate_geographic_risk (ax_market_distance a)
                        (ax_infrastructure_access a);
                    behavioral_risk =
                      ax_calculate_behavioral_risk (ax_seasonal_income_variation a);
                    overall_risk = demographic_risk * 0.25 + financial_risk * 0.35 +
                                   geographic_risk * 0.20 + behavioral_risk * 0.20
                in Inr \<lparr> ax_demographic_risk = py_round4 demographic_risk,
                         ax_financial_risk = py_round4 financial_risk,
                         ax_geographic_risk = py_round4 geographic_risk,
                         ax_behavioral_risk = py_round4 behavioral_risk,
                         ax_overall_risk_score = py_round4 overall_risk,
                         ax_risk_category = categorize_risk overall_risk \<rparr>)))"

section \<open>Fixed-weight linear combinations and example rows\<close>

text \<open>
  The linear combination of the values \<open>xs\<close> with the weights \<open>ws\<close>, as the
  specification speaks of it.
\<close>

definition weighted_sum :: "rat list \<Rightarrow> rat list \<Rightarrow> rat" where
  "weighted_sum ws xs = sum_list (map (\<lambda>(w, x). w * x) (zip ws xs))"

text \<open>Concrete rows on which the statements below are evaluated.\<close>

definition cb_example :: cb_borrower where
  "cb_example =
     \<lparr> cb_age = 61, cb_education_level = ''Illiterate'', cb_family_size = 8,
       cb_years_in_location = 1, cb_monthly_income = 8000, cb_requested_loan_amount = 75000,
       cb_monthly_expenses = 7000, cb_has_bank_account = False, cb_existing_loans = 3,
       cb_previous_defaults = 1, cb_savings_amount = 0, cb_credit_score = Some 300,
       cb_owns_house = False, cb_house_type = ''Kutcha'', cb_owns_land = False,
       cb_owns_vehicle = False, cb_collateral_offered = False, cb_collateral_value = 0,
       cb_guarantor_available = False, cb_shg_member = False, cb_mobile_ownership = False,
       cb_aadhaar_linked = False, cb_seasonal_migration = True,
       cb_financial_literacy_score = 1, cb_community_reputation = ''Poor'',
       cb_local_leader_recommendation = False, cb_electricity_connection = False,
       cb_water_source = ''Hand Pump'', cb_toilet_facility = False,
       cb_road_connectivity = ''Mud'', cb_internet_usage = False, cb_market_access_score = 1,
       cb_pan_card = False, cb_insurance_life = False, cb_insurance_health = False,
       cb_credit_history_length = 0, cb_voter_id = False \<rparr>"

definition eb_example :: eb_borrower where
  "eb_example =
     \<lparr> eb_age = 40, eb_education_level = ''Secondary'', eb_family_size = 4,
       eb_years_in_location = 10, eb_monthly_income = 20000, eb_requested_loan_amount = 30000,
       eb_monthly_expenses = 18000, eb_has_bank_account = True, eb_existing_loans = 0,
       eb_previous_defaults = 0, eb_savings_amount = 5000, eb_owns_land = True,
       eb_owns_vehicle = False, eb_electricity_access = True, eb_road_connectivity = ''Paved'',
       eb_internet_access = False, eb_collateral_value = 0, eb_shg_member = True,
       eb_mobile_ownership = True, eb_aadhaar_linked = True, eb_seasonal_migration = False,
       eb_financial_literacy_score = 7, eb_pan_card = True, eb_insurance_coverage = False,
       eb_credit_history_length = 3 \<rparr>"

definition sd_example :: sd_draws where
  "sd_example = \<lparr> sd_age = 30, sd_income = 60000, sd_education = ''secondary'',
                   sd_credit_history = 5 \<rparr>"

text \<open>
  Two borrowers of \<open>generate_enhanced_data.py\<close> that differ only in the distance to the
  bank (12.008 km and 11.992 km), and one of \<open>analyze_excel_data.py\<close>.
\<close>

definition en_example :: "rat \<Rightarrow> en_attrs" where
  "en_example distance_to_bank =
     \<lparr> en_age = 30, en_income = 30000, en_education = ''secondary'', en_family_size = 2,
       en_credit_history_months = 12, en_existing_loans = 0, en_has_savings_account = False,
       en_monthly_expenses = 19500, en_owns_land = True, en_land_size_acres = 1,
       en_owns_livestock = False, en_livestock_count = 0,
       en_distance_to_bank = distance_to_bank, en_distance_to_market = 10,
       en_road_connectivity = 3, en_electricity_access = False, en_group_membership = True,
       en_government_scheme_beneficiary = True, en_mobile_phone_ownership = False \<rparr>"

definition ax_example :: ax_attrs where
  "ax_example =
     \<lparr> ax_age = 30, ax_income = 75000, ax_education = ''secondary'', ax_occupation = ''farmer'',
       ax_credit_history_score = 5, ax_existing_loans = 0, ax_has_savings = True,
       ax_monthly_expenses = 30000, ax_market_distance = 15, ax_infrastructure_access = 5,
       ax_seasonal_income_variation = 0.4 \<rparr>"

section \<open>Risk labels as the specification states them\<close>



section \<open>ai\_agent\_population.py: choosing the population claim\<close>

text \<open>
  A P1082 claim of the \<open>wbgetclaims\<close> answer after JSON decoding, reduced to what
  \<open>get_population_from_claims\<close> reads from it:
  \<^item> \<open>claim_has_datavalue\<close>: \<open>mainsnak.datavalue\<close> is present and not empty;
  \<^item> \<open>claim_amount\<close>: the outcome of \<open>float(value["amount"])\<close>, \<open>None\<close> when the value is
    not a dictionary, has no \<open>amount\<close>, or \<open>float\<close> raises;
  \<^item> \<open>claim_year\<close>: the outcome of the block that reads the first P585 qualifier,
    \<open>None\<close> when there is no such qualifier, no time string, or the block raises.
\<close>

record claim =
  claim_has_datavalue :: bool
  claim_amount :: "fval option"
  claim_year :: "int option"

record population_result =
  pr_population :: "int option"
  pr_year :: "int option"

text \<open>
  \<open>int(x)\<close> on a float truncates towards zero and raises on an infinity
  (\<open>OverflowError\<close>) or NaN (\<open>ValueError\<close>).
\<close>

fun py_int_of_float :: "fval \<Rightarrow> py_error + int" where
  "py_int_of_float (Fin x) = Inr (if 0 \<le> x then \<lfloor>x\<rfloor> else \<lceil>x\<rceil>)"
| "py_int_of_float PosInf = Inl (OverflowError ''cannot convert float infinity to integer'')"
| "py_int_of_float NegInf = Inl (OverflowError ''cannot convert float infinity to integer'')"
| "py_int_of_float NaN = Inl (ValueError ''cannot convert float NaN to integer'')"

text \<open>
  One iteration of the loop over the claims; the state is \<open>(best_claim, best_year)\<close>.
\<close>

definition claim_step :: "claim \<Rightarrow> claim option \<times> int option \<Rightarrow> claim option \<times> int option" where
  "claim_step c st =
     (let (best_claim, best_year) = st in
      if \<not> claim_has_datavalue c then (best_claim, best_year)
      else case claim_year c of
             Some year \<Rightarrow>
               (if (case best_year of None \<Rightarrow> True | Some b \<Rightarrow> year > b)
                then (Some c, Some year)
                else (best_claim, best_year))
           | None \<Rightarrow>
               (if best_claim = None then (Some c, best_year) else (best_claim, best_year)))"

definition best_of_claims :: "claim list \<Rightarrow> claim option \<times> int option" where
  "best_of_claims claims = fold claim_step claims (None, None)"

text \<open>The part of the function after the loop, for a chosen claim.\<close>

definition population_of_claim :: "claim \<Rightarrow> int option \<Rightarrow> py_error + population_result option" where
  "population_of_claim best_claim best_year =
     (case claim_amount best_claim of
        None \<Rightarrow> Inr (Some \<lparr> pr_population = None, pr_year = best_year \<rparr>)
      | Some amount \<Rightarrow>
          (case py_int_of_float amount of
             Inl e \<Rightarrow> Inl e
           | Inr n \<Rightarrow> Inr (Some \<lparr> pr_population = Some n, pr_year = best_year \<rparr>)))"

text \<open>
  \<open>get_population_from_claims\<close> on the list \<open>claims\<close> that the HTTP answer holds under
  \<open>claims.P1082\<close> (the request itself is part of the environment further below).
\<close>

definition population_from_claims :: "claim list \<Rightarrow> py_error + population_result option" where
  "population_from_claims claims =
     (if claims = [] then Inr None
      else case best_of_claims claims of
             (None, _) \<Rightarrow> Inr None
           | (Some best_claim, best_year) \<Rightarrow> population_of_claim best_claim best_year)"

text \<open>The first claim that the loop does not skip.\<close>

definition first_with_datavalue :: "claim list \<Rightarrow> claim option" where
  "first_with_datavalue claims = find claim_has_datavalue claims"

text \<open>
  The years of the claims the loop looks at: those with a datavalue and a readable P585
  year, in the order of the list.
\<close>

definition years_of :: "claim list \<Rightarrow> int list" where
  "years_of claims =
     List.map_filter (\<lambda>c. if claim_has_datavalue c then claim_year c else None) claims"

definition yearless_then_dated :: "claim list" where
  "yearless_then_dated =
     [\<lparr> claim_has_datavalue = True, claim_amount = Some (Fin 100), claim_year = None \<rparr>,
      \<lparr> claim_has_datavalue = True, claim_amount = Some (Fin 300), claim_year = Some 2011 \<rparr>,
      \<lparr> claim_has_datavalue = True, claim_amount = Some (Fin 200), claim_year = Some 2001 \<rparr>,
      \<lparr> claim_has_datavalue = True, claim_amount = Some (Fin 400), claim_year = Some 2011 \<rparr>]"

text \<open>
  A claim whose main snak has no datavalue (Wikidata's "unknown value") but a P585
  qualifier, followed by an undated claim with an amount.
\<close>

definition dated_without_value :: "claim list" where
  "dated_without_value =
     [\<lparr> claim_has_datavalue = False, claim_amount = None, claim_year = Some 2020 \<rparr>,
      \<lparr> claim_has_datavalue = True, claim_amount = Some (Fin 100), claim_year = None \<rparr>]"

section \<open>Python strings\<close>

text \<open>
  Text is a list of characters with code points below 256. On that range \<open>str.isspace\<close>,
  \<open>str.strip\<close>, \<open>str.split\<close> and the regular-expression class \<open>\s\<close> agree on the white
  space characters, and \<open>\d\<close> matches the ten ASCII digits only.
\<close>

definition is_space :: "char \<Rightarrow> bool" where
  "is_space c \<longleftrightarrow>
     (let n = (of_char c :: nat)
      in n = 32 \<or> (9 \<le> n \<and> n \<le> 13) \<or> (28 \<le> n \<and> n \<le> 31) \<or> n = 133 \<or> n = 160)"

definition is_digit :: "char \<Rightarrow> bool" where
  "is_digit c \<longleftrightarrow> (let n = (of_char c :: nat) in 48 \<le> n \<and> n \<le> 57)"

text \<open>\<open>str.lower\<close>: the ASCII capitals and the capitals of Latin-1 move up by 32.\<close>

definition lower_char :: "char \<Rightarrow> char" where
  "lower_char c =
     (let n = (of_char c :: nat)
      in if (65 \<le> n \<and> n \<le> 90) \<or> (192 \<le> n \<and> n \<le> 222 \<and> n \<noteq> 215)
         then char_of (n + 32) else c)"

definition py_lower :: "string \<Rightarrow> string" where
  "py_lower s = map lower_char s"

definition py_strip :: "string \<Rightarrow> string" where
  "py_strip s = rev (dropWhile is_space (rev (dropWhile is_space s)))"

text \<open>\<open>s.split()\<close>: the maximal runs of characters that are not white space.\<close>

fun split_words :: "string \<Rightarrow> string \<Rightarrow> string list" where
  "split_words cur [] = (if cur = [] then [] else [rev cur])"
| "split_words cur (c # cs) =
     (if is_space c
      then (if cur = [] then split_words [] cs else rev cur # split_words [] cs)
      else split_words (c # cur) cs)"

definition py_split :: "string \<Rightarrow> string list" where
  "py_split s = split_words [] s"

text \<open>\<open>a in b\<close> on strings: \<open>a\<close> occurs in \<open>b\<close> as a contiguous piece.\<close>

definition py_in :: "string \<Rightarrow> string \<Rightarrow> bool" where
  "py_in a b \<longleftrightarrow> sublist a b"

text \<open>\<open>int\<close> on a string of ASCII digits.\<close>

definition digits_value :: "string \<Rightarrow> nat" where
  "digits_value ds = foldl (\<lambda>n c. 10 * n + (of_char c - 48)) 0 ds"

text \<open>
  \<open>float\<close> on the strings the percentage pattern can capture: digits, optionally followed
  by a point and digits. On anything else this model answers \<open>None\<close>, which stands for
  the \<open>except\<close> branch of \<open>extract_percentage\<close>.
\<close>

definition py_float_decimal :: "string \<Rightarrow> rat option" where
  "py_float_decimal g =
     (let ip = takeWhile is_digit g; rest = dropWhile is_digit g
      in if ip = [] then None
         else if rest = [] then Some (of_nat (digits_value ip))
         else (case rest of
                 c # fp \<Rightarrow>
                   if c = CHR ''.'' \<and> fp \<noteq> [] \<and> list_all is_digit fp
                   then Some (of_nat (digits_value ip) + of_nat (digits_value fp) / 10 ^ length fp)
                   else None
               | [] \<Rightarrow> None))"

section \<open>The regular expressions of the agents\<close>

text \<open>
  \<open>re.sub(r"\s+", " ", s)\<close>: every maximal run of white space becomes one blank. The flag
  says whether the previous character was white space.
\<close>

fun sub_ws_runs :: "bool \<Rightarrow> string \<Rightarrow> string" where
  "sub_ws_runs in_run [] = []"
| "sub_ws_runs in_run (c # cs) =
     (if is_space c
      then (if in_run then sub_ws_runs True cs else CHR '' '' # sub_ws_runs True cs)
      else c # sub_ws_runs False cs)"

text \<open>\<open>re.sub(r"[^a-z0-9 ]", "", s)\<close> keeps the characters of the class.\<close>

definition is_name_char :: "char \<Rightarrow> bool" where
  "is_name_char c \<longleftrightarrow>
     (let n = (of_char c :: nat) in (97 \<le> n \<and> n \<le> 122) \<or> (48 \<le> n \<and> n \<le> 57) \<or> n = 32)"

definition normalize_name :: "string \<Rightarrow> string" where
  "normalize_name s =
     (let s2 = py_lower (py_strip s);
          s2 = sub_ws_runs False s2;
          s2 = filter is_name_char s2
      in s2)"

text \<open>
  The pattern \<open>(\d{1,3}(?:\.\d+)?)\s*%\<close> as the backtracking matcher of \<open>re\<close> tries it.
  \<open>ws_then_pct\<close> is \<open>\s*%\<close> at the start of the text. At a start position the matcher
  tries three digits, then two, then one (\<open>int_candidates\<close>); after them the optional
  group with its longest run of digits first, then shorter runs, then without the group
  (\<open>frac_candidates\<close>, the number of characters the group takes); the first combination
  after which \<open>\s*%\<close> matches wins, and group 1 is what the digits and the optional group
  consumed. \<open>re.search\<close> takes the leftmost start position with a match.
\<close>

fun ws_then_pct :: "string \<Rightarrow> bool" where
  "ws_then_pct [] \<longleftrightarrow> False"
| "ws_then_pct (c # cs) \<longleftrightarrow> c = CHR ''%'' \<or> (is_space c \<and> ws_then_pct cs)"

definition int_candidates :: "string \<Rightarrow> nat list" where
  "int_candidates s = rev [1 ..< Suc (min 3 (length (takeWhile is_digit s)))]"

definition frac_candidates :: "string \<Rightarrow> nat list" where
  "frac_candidates r =
     (case r of
        c # r' \<Rightarrow>
          if c = CHR ''.'' then map Suc (rev [1 ..< Suc (length (takeWhile is_digit r'))]) else []
      | [] \<Rightarrow> []) @ [0]"

definition match_pct_here :: "string \<Rightarrow> string option" where
  "match_pct_here s =
     (case find (\<lambda>(k, j). ws_then_pct (drop (k + j) s))
             (concat (map (\<lambda>k. map (\<lambda>j. (k, j)) (frac_candidates (drop k s)))
                        (int_candidates s))) of
        None \<Rightarrow> None
      | Some (k, j) \<Rightarrow> Some (take (k + j) s))"

fun re_search_pct :: "string \<Rightarrow> string option" where
  "re_search_pct [] = None"
| "re_search_pct (c # cs) =
     (case match_pct_here (c # cs) of Some g \<Rightarrow> Some g | None \<Rightarrow> re_search_pct cs)"

text \<open>\<open>re.search(r"\((\d{4})\)", text)\<close> and \<open>re.search(r"(\d{4})", txt)\<close>: group 1.\<close>

fun re_search_paren_year :: "string \<Rightarrow> string option" where
  "re_search_paren_year [] = None"
| "re_search_paren_year (c # cs) =
     (if c = CHR ''('' \<and> 5 \<le> length cs \<and> list_all is_digit (take 4 cs) \<and> cs ! 4 = CHR '')''
      then Some (take 4 cs) else re_search_paren_year cs)"

fun re_search_four_digits :: "string \<Rightarrow> string option" where
  "re_search_four_digits [] = None"
| "re_search_four_digits (c # cs) =
     (if 3 \<le> length cs \<and> list_all is_digit (c # take 3 cs)
      then Some (c # take 3 cs) else re_search_four_digits cs)"

section \<open>literacy\_agent.py: extraction helpers\<close>

definition extract_percentage :: "string \<Rightarrow> rat option" where
  "extract_percentage text =
     (case re_search_pct text of
        None \<Rightarrow> None
      | Some g \<Rightarrow> (case py_float_decimal g of None \<Rightarrow> None | Some v \<Rightarrow> Some v))"



section \<open>literacy\_agent.py: the parsed page and its parsers\<close>

text \<open>
  What the parsers read of the BeautifulSoup tree: the \<open>table\<close> elements in document
  order, each with its class tokens and its \<open>tr\<close> descendants, each row with the text
  (\<open>get_text(separator=" ", strip=True)\<close>) of its first \<open>th\<close> and first \<open>td\<close>, \<open>None\<close> when
  the row has none; and the texts of the \<open>p\<close> and \<open>li\<close> elements in document order.
\<close>

record table_row =
  row_th :: "string option"
  row_td :: "string option"

record html_table =
  table_classes :: "string list"
  table_rows :: "table_row list"

record soup =
  soup_tables :: "html_table list"
  soup_paragraphs :: "string list"

record literacy_info =
  li_literacy :: "rat option"
  li_year :: "int option"
  li_source :: string
  li_raw :: string

text \<open>
  \<open>class_=lambda c: c and "infobox" in c\<close>: some class token contains \<open>infobox\<close>; a table
  without a class attribute does not match.
\<close>

definition is_infobox :: "html_table \<Rightarrow> bool" where
  "is_infobox t \<longleftrightarrow> list_ex (\<lambda>c. py_in ''infobox'' c) (table_classes t)"

definition mentions_literacy :: "string \<Rightarrow> bool" where
  "mentions_literacy th \<longleftrightarrow>
     (let label = py_lower th in py_in ''literacy'' label \<or> py_in ''literates'' label)"

definition year_of_digits :: "string option \<Rightarrow> int option" where
  "year_of_digits ym = (case ym of None \<Rightarrow> None | Some g \<Rightarrow> Some (int (digits_value g)))"

fun infobox_rows :: "table_row list \<Rightarrow> literacy_info option" where
  "infobox_rows [] = None"
| "infobox_rows (tr # trs) =
     (case (row_th tr, row_td tr) of
        (Some th, Some td) \<Rightarrow>
          if mentions_literacy th
          then Some \<lparr> li_literacy = extract_percentage td,
                      li_year = year_of_digits (re_search_paren_year td),
                      li_source = ''wikipedia-infobox'',
                      li_raw = td \<rparr>
          else infobox_rows trs
      | _ \<Rightarrow> infobox_rows trs)"

definition parse_infobox_for_literacy :: "soup \<Rightarrow> literacy_info option" where
  "parse_infobox_for_literacy sp =
     (case find is_infobox (soup_tables sp) of
        None \<Rightarrow> None
      | Some table \<Rightarrow> infobox_rows (table_rows table))"

fun body_paragraphs :: "string list \<Rightarrow> literacy_info option" where
  "body_paragraphs [] = None"
| "body_paragraphs (txt # ps) =
     (if py_in ''literacy'' (py_lower txt) \<or> py_in ''literate'' (py_lower txt)
      then (case extract_percentage txt of
              Some pct \<Rightarrow>
                Some \<lparr> li_literacy = Some pct,
                       li_year = year_of_digits (re_search_four_digits txt),
                       li_source = ''wikipedia-body'',
                       li_raw = txt \<rparr>
            | None \<Rightarrow> body_paragraphs ps)
      else body_paragraphs ps)"

definition parse_body_for_literacy :: "soup \<Rightarrow> literacy_info option" where
  "parse_body_for_literacy sp = body_paragraphs (soup_paragraphs sp)"

section \<open>ai\_agent\_population.py: the election table\<close>

text \<open>
  \<open>ELECTION_DATA\<close> after \<open>load_election_data\<close> has run: a dictionary in insertion order
  from the normalised name to the original name and the number of electors.
\<close>

type_synonym election_data = "(string \<times> string \<times> int) list"

record election_hit =
  eh_population :: int
  eh_year :: int

definition word_step ::
  "string list \<Rightarrow> string \<times> string \<times> int \<Rightarrow> (string \<times> int) option \<times> nat
     \<Rightarrow> (string \<times> int) option \<times> nat" where
  "word_step place_words kv st =
     (let (k, v) = kv; (best, best_score) = st;
          ks = py_split k;
          score = card (set place_words \<inter> set ks)
      in if score > best_score \<and> score > 0 then (Some v, score) else (best, best_score))"

definition election_lookup :: "election_data \<Rightarrow> string \<Rightarrow> election_hit option" where
  "election_lookup ELECTION_DATA place =
     (if ELECTION_DATA = [] then None
      else let norm_place = normalize_name place in
        case map_of ELECTION_DATA norm_place of
          Some d \<Rightarrow> Some \<lparr> eh_population = snd d, eh_year = 2025 \<rparr>
        | None \<Rightarrow>
            (case find (\<lambda>(k, v). norm_place = k \<or> py_in norm_place k \<or> py_in k norm_place)
                    ELECTION_DATA of
               Some (k, v) \<Rightarrow> Some \<lparr> eh_population = snd v, eh_year = 2025 \<rparr>
             | None \<Rightarrow>
                 (case fst (fold (word_step (py_split norm_place)) ELECTION_DATA (None, 0)) of
                    Some best \<Rightarrow> Some \<lparr> eh_population = snd best, eh_year = 2025 \<rparr>
                  | None \<Rightarrow> None)))"

section \<open>The remote services as an environment\<close>

text \<open>
  A call of a remote service either raises (\<open>Inl\<close>) or answers. A JSON object with string
  values (a Wikidata search hit, a Wikipedia search item) is an association list.
\<close>

type_synonym json_object = "(string \<times> string) list"

fun exc_str :: "py_error \<Rightarrow> string" where
  "exc_str (AttributeError m) = m"
| "exc_str (KeyError m) = m"
| "exc_str (ValueError m) = m"
| "exc_str (OverflowError m) = m"
| "exc_str (ZeroDivisionError m) = m"
| "exc_str (RequestException m) = m"
| "exc_str (StopIteration m) = m"

text \<open>The remote calls and parser runs that a lookup performs, in order.\<close>

datatype call =
    WikidataSearch string
  | WikidataClaims "string option"
  | WikipediaSearch string
  | WikipediaFetch "string option"
  | ParseInfobox
  | ParseBody

text \<open>\<open>a or b\<close> on optional strings: \<open>None\<close> and the empty string are false.\<close>

definition py_or :: "string option \<Rightarrow> string option \<Rightarrow> string option" where
  "py_or a b = (case a of Some s \<Rightarrow> if s \<noteq> [] then a else b | None \<Rightarrow> b)"

text \<open>The truth value of an optional dictionary or string: \<open>None\<close> and empty are false.\<close>

definition truthy :: "'a list option \<Rightarrow> 'a list option" where
  "truthy v = (case v of None \<Rightarrow> None | Some s \<Rightarrow> if s = [] then None else Some s)"

subsection \<open>The population agent\<close>

text \<open>
  \<open>pe_election_data\<close> is the outcome of \<open>load_election_data\<close> inside \<open>election_lookup\<close>:
  the table it leaves in \<open>ELECTION_DATA\<close> (empty when the request failed), or an exception
  that escapes it. \<open>pe_wikidata_search\<close> is the \<open>search\<close> list of the \<open>wbsearchentities\<close>
  answer for a label, \<open>pe_wikidata_claims\<close> the P1082 claims of the \<open>wbgetclaims\<close> answer
  for an entity id.
\<close>

record pop_env =
  pe_election_data :: "py_error + election_data"
  pe_wikidata_search :: "string \<Rightarrow> py_error + json_object list"
  pe_wikidata_claims :: "string option \<Rightarrow> py_error + claim list"

record population_out =
  po_input_name :: string
  po_wikidata_id :: "string option"
  po_wikidata_label :: "string option"
  po_population :: "int option"
  po_population_year :: "int option"
  po_notes :: "string option"

definition search_wikidata_entity :: "pop_env \<Rightarrow> string \<Rightarrow> py_error + json_object option" where
  "search_wikidata_entity env label =
     (case pe_wikidata_search env label of
        Inl e \<Rightarrow> Inl e
      | Inr results \<Rightarrow> Inr (case results of [] \<Rightarrow> None | r # _ \<Rightarrow> Some r))"

definition get_population_from_claims ::
  "pop_env \<Rightarrow> string option \<Rightarrow> py_error + population_result option" where
  "get_population_from_claims env entity_id =
     (case pe_wikidata_claims env entity_id of
        Inl e \<Rightarrow> Inl e
      | Inr claims \<Rightarrow> population_from_claims claims)"

definition election_lookup_in :: "pop_env \<Rightarrow> string \<Rightarrow> py_error + election_hit option" where
  "election_lookup_in env place =
     (case pe_election_data env of
        Inl e \<Rightarrow> Inl e
      | Inr ELECTION_DATA \<Rightarrow> Inr (election_lookup ELECTION_DATA place))"

text \<open>The part of \<open>get_population_for_place\<close> after the election site gave nothing.\<close>

definition population_from_wikidata ::
  "pop_env \<Rightarrow> population_out \<Rightarrow> string \<Rightarrow> population_out \<times> call list" where
  "population_from_wikidata env out place =
     (case search_wikidata_entity env place of
        Inl e \<Rightarrow>
          (out \<lparr> po_notes := Some (''search-error: '' @ exc_str e) \<rparr>, [WikidataSearch place])
      | Inr search \<Rightarrow>
          (case truthy search of
             None \<Rightarrow>
               (out \<lparr> po_notes := Some ''no-wikidata-entity-found'' \<rparr>, [WikidataSearch place])
           | Some s \<Rightarrow>
               (let entity_id = map_of s ''id'';
                    out = out \<lparr> po_wikidata_id := entity_id,
                                po_wikidata_label :=
                                  py_or (map_of s ''label'') (map_of s ''title'') \<rparr>;
                    calls = [WikidataSearch place, WikidataClaims entity_id]
                in case get_population_from_claims env entity_id of
                     Inl e \<Rightarrow>
                       (out \<lparr> po_notes := Some (''claims-error: '' @ exc_str e) \<rparr>, calls)
                   | Inr None \<Rightarrow>
                       (out \<lparr> po_notes := Some ''no-population-found'' \<rparr>, calls)
                   | Inr (Some pop) \<Rightarrow>
                       (let out = out \<lparr> po_population := pr_population pop,
                                        po_population_year := pr_year pop \<rparr>
                        in if po_population out = None
                           then (out \<lparr> po_notes := Some ''population-parsing-failed'' \<rparr>, calls)
                           else (out \<lparr> po_notes := Some ''wikidata'' \<rparr>, calls)))))"

definition get_population_for_place :: "pop_env \<Rightarrow> string \<Rightarrow> population_out \<times> call list" where
  "get_population_for_place env place =
     (let out = \<lparr> po_input_name = place, po_wikidata_id = None, po_wikidata_label = None,
                   po_population = None, po_population_year = None, po_notes = None \<rparr>;
          elect = (case election_lookup_in env place of Inl e \<Rightarrow> None | Inr r \<Rightarrow> r)
      in case elect of
           Some hit \<Rightarrow>
             (out \<lparr> po_population := Some (eh_population hit),
                    po_population_year := Some (eh_year hit),
                    po_notes := Some ''election-site'' \<rparr>, [])
         | None \<Rightarrow> population_from_wikidata env out place)"


subsection \<open>The literacy agent\<close>

text \<open>
  \<open>le_wiki_search\<close> is the \<open>query.search\<close> list of the search answer for a title,
  \<open>le_fetch_page\<close> the status code and text of the GET of a page, \<open>le_parse_html\<close> what
  \<open>BeautifulSoup(html, "lxml")\<close> builds, and the two faults are exceptions raised while
  one of the parsers runs, if any (the model of the parsers itself never raises).
\<close>

record lit_env =
  le_wiki_search :: "string \<Rightarrow> py_error + json_object list"
  le_fetch_page :: "string \<Rightarrow> py_error + nat \<times> string"
  le_parse_html :: "string \<Rightarrow> soup"
  le_infobox_fault :: "py_error option"
  le_body_fault :: "py_error option"

record literacy_out =
  lo_input_name :: string
  lo_wiki_title :: "string option"
  lo_literacy :: "rat option"
  lo_literacy_year :: "int option"
  lo_notes :: "string option"

definition wiki_search :: "lit_env \<Rightarrow> string \<Rightarrow> py_error + json_object option" where
  "wiki_search env title =
     (case le_wiki_search env title of
        Inl e \<Rightarrow> Inl e
      | Inr items \<Rightarrow> Inr (case items of [] \<Rightarrow> None | i # _ \<Rightarrow> Some i))"

text \<open>\<open>page_title.replace\<close> raises \<open>AttributeError\<close> when the search item had no title.\<close>

definition fetch_wiki_html :: "lit_env \<Rightarrow> string option \<Rightarrow> py_error + string option" where
  "fetch_wiki_html env page_title =
     (case page_title of
        None \<Rightarrow> Inl (AttributeError ''replace'')
      | Some t \<Rightarrow>
          (case le_fetch_page env t of
             Inl e \<Rightarrow> Inl e
           | Inr (status_code, text) \<Rightarrow> Inr (if status_code \<noteq> 200 then None else Some text)))"

text \<open>
  \<open>info and info.get("literacy") is not None\<close>: the parser's answer when it carries a
  percentage.
\<close>

definition with_literacy :: "literacy_info option \<Rightarrow> literacy_info option" where
  "with_literacy info =
     (case info of None \<Rightarrow> None | Some i \<Rightarrow> if li_literacy i \<noteq> None then Some i else None)"

definition try_parse_infobox :: "lit_env \<Rightarrow> soup \<Rightarrow> literacy_info option" where
  "try_parse_infobox env sp =
     (case le_infobox_fault env of Some e \<Rightarrow> None | None \<Rightarrow> parse_infobox_for_literacy sp)"

definition try_parse_body :: "lit_env \<Rightarrow> soup \<Rightarrow> literacy_info option" where
  "try_parse_body env sp =
     (case le_body_fault env of Some e \<Rightarrow> None | None \<Rightarrow> parse_body_for_literacy sp)"

text \<open>
  The part of \<open>get_literacy_for_place\<close> after the page was fetched: the infobox first,
  the body only when the infobox gave no percentage.
\<close>

definition literacy_from_page ::
  "lit_env \<Rightarrow> literacy_out \<Rightarrow> string \<Rightarrow> literacy_out \<times> call list" where
  "literacy_from_page env out html =
     (let sp = le_parse_html env html
      in case with_literacy (try_parse_infobox env sp) of
           Some i \<Rightarrow>
             (out \<lparr> lo_literacy := li_literacy i,
                    lo_literacy_year := li_year i,
                    lo_notes := Some (li_source i) \<rparr>,
              [ParseInfobox])
         | None \<Rightarrow>
             (case with_literacy (try_parse_body env sp) of
                Some b \<Rightarrow>
                  (out \<lparr> lo_literacy := li_literacy b,
                         lo_literacy_year := li_year b,
                         lo_notes := Some (li_source b) \<rparr>,
                   [ParseInfobox, ParseBody])
              | None \<Rightarrow>
                  (out \<lparr> lo_notes := Some ''no-literacy-found'' \<rparr>,
                   [ParseInfobox, ParseBody])))"

definition get_literacy_for_place ::
  "lit_env \<Rightarrow> string \<Rightarrow> (py_error + literacy_out) \<times> call list" where
  "get_literacy_for_place env place =
     (let out = \<lparr> lo_input_name = place, lo_wiki_title = None, lo_literacy = None,
                   lo_literacy_year = None, lo_notes = None \<rparr>
      in case wiki_search env place of
           Inl e \<Rightarrow>
             (Inr (out \<lparr> lo_notes := Some (''search-error: '' @ exc_str e) \<rparr>),
              [WikipediaSearch place])
         | Inr search \<Rightarrow>
             (case truthy search of
                None \<Rightarrow>
                  (Inr (out \<lparr> lo_notes := Some ''no-wikipedia-search-result'' \<rparr>),
                   [WikipediaSearch place])
              | Some s \<Rightarrow>
                  (let title = map_of s ''title'';
                       out = out \<lparr> lo_wiki_title := title \<rparr>;
                       calls = [WikipediaSearch place, WikipediaFetch title]
                   in case fetch_wiki_html env title of
                        Inl e \<Rightarrow> (Inl e, calls)
                      | Inr html \<Rightarrow>
                          (case truthy html of
                             None \<Rightarrow> (Inr (out \<lparr> lo_notes := Some ''failed-fetch-page'' \<rparr>), calls)
                           | Some h \<Rightarrow>
                               (let (out, parses) = literacy_from_page env out h
                                in (Inr out, calls @ parses))))))"


section \<open>Example pages, tables and environments\<close>

definition election_example :: election_data where
  "election_example =
     [(''anna nagar'', (''Anna Nagar'', 250000)), (''t nagar'', (''T. Nagar'', 180000))]"

text \<open>
  A page whose infobox has no literacy row and whose body has a sentence about literacy,
  and a page whose infobox has one.
\<close>

definition soup_body_only :: soup where
  "soup_body_only =
     \<lparr> soup_tables =
         [\<lparr> table_classes = [''wikitable''],
            table_rows = [\<lparr> row_th = Some ''Literacy'', row_td = Some ''12%'' \<rparr>] \<rparr>,
          \<lparr> table_classes = [''infobox'', ''vcard''],
            table_rows = [\<lparr> row_th = Some ''Population'', row_td = Some ''4,681,087'' \<rparr>,
                          \<lparr> row_th = Some ''Literacy'', row_td = None \<rparr>] \<rparr>],
       soup_paragraphs =
         [''Chennai is a city.'', ''In 2011 the literacy rate was 90.18 %.''] \<rparr>"

definition soup_infobox :: soup where
  "soup_infobox =
     \<lparr> soup_tables =
         [\<lparr> table_classes = [''infobox'', ''vcard''],
            table_rows = [\<lparr> row_th = Some ''Population'', row_td = Some ''4,681,087'' \<rparr>,
                          \<lparr> row_th = Some ''Literacy (2011)'', row_td = Some ''90.18% (2011)'' \<rparr>] \<rparr>],
       soup_paragraphs = [''The literacy rate was 80 % in 2001.''] \<rparr>"


text \<open>
  An election table that knows Anna Nagar and T. Nagar, a Wikidata that knows one entity
  with a dated population claim, and a Wikidata whose search request fails.
\<close>

definition pop_env_example :: pop_env where
  "pop_env_example =
     \<lparr> pe_election_data = Inr election_example,
       pe_wikidata_search = (\<lambda>label. Inr [[(''id'', ''Q1352''), (''label'', ''Chennai'')]]),
       pe_wikidata_claims =
         (\<lambda>entity_id. Inr [\<lparr> claim_has_datavalue = True, claim_amount = Some (Fin 4681087),
                             claim_year = Some 2011 \<rparr>]) \<rparr>"


text \<open>
  A Wikipedia that finds a page and serves the given parsed page for it, and one whose
  page request raises after the search succeeded.
\<close>

definition lit_env_example :: "soup \<Rightarrow> lit_env" where
  "lit_env_example sp =
     \<lparr> le_wiki_search = (\<lambda>title. Inr [[(''title'', ''Chennai''), (''pageid'', ''45139'')]]),
       le_fetch_page = (\<lambda>title. Inr (200, ''<html>'')),
       le_parse_html = (\<lambda>html. sp),
       le_infobox_fault = None,
       le_body_fault = None \<rparr>"


section \<open>process\_excel of both agents\<close>

text \<open>
  A data frame as pandas holds it: its columns in order, each a name and its values. A
  cell read from a sheet is missing (NaN), a text or a whole number. \<open>read_excel\<close> with
  \<open>sheet_name=None\<close> answers with a dictionary of all sheets, otherwise with one frame.
\<close>

datatype cell = CNaN | CStr string | CInt int

type_synonym dataframe = "(string \<times> cell list) list"

datatype excel_read = Frame dataframe | Sheets "(string \<times> dataframe) list"

text \<open>The decimal digits of a natural number, for \<open>str\<close> of a whole number.\<close>

function nat_digits :: "nat \<Rightarrow> string" where
  "nat_digits n =
     (if n < 10 then [char_of (48 + n)] else nat_digits (n div 10) @ [char_of (48 + n mod 10)])"
  by pat_completeness auto
termination
  by (relation "measure id") auto

text \<open>\<open>.astype(str)\<close> on one cell: NaN becomes the text \<open>nan\<close>, which \<open>fillna\<close> leaves alone.\<close>

fun cell_str :: "cell \<Rightarrow> string" where
  "cell_str CNaN = ''nan''"
| "cell_str (CStr s) = s"
| "cell_str (CInt i) = (if i < 0 then CHR ''-'' # nat_digits (nat (- i)) else nat_digits (nat i))"

definition first_sheet :: "excel_read \<Rightarrow> py_error + dataframe" where
  "first_sheet r =
     (case r of
        Frame df \<Rightarrow> Inr df
      | Sheets [] \<Rightarrow> Inl (StopIteration '''')
      | Sheets (s # _) \<Rightarrow> Inr (snd s))"

subsection \<open>ai\_agent\_population.py\<close>

text \<open>
  The written frame: the original columns followed by the columns of the results without
  \<open>input_name\<close>.
\<close>

record population_frame =
  pf_original :: dataframe
  pf_wikidata_id :: "string option list"
  pf_wikidata_label :: "string option list"
  pf_population :: "int option list"
  pf_population_year :: "int option list"
  pf_notes :: "string option list"

definition population_empty_input :: "string \<Rightarrow> population_out" where
  "population_empty_input place =
     \<lparr> po_input_name = place, po_wikidata_id = None, po_wikidata_label = None,
       po_population = None, po_population_year = None, po_notes = Some ''empty-input'' \<rparr>"

text \<open>
  The loop over the places. The remote services may answer differently from one row to
  the next, so the environment depends on the row number \<open>idx\<close> (counted from 1).
\<close>

fun population_rows ::
  "(nat \<Rightarrow> pop_env) \<Rightarrow> nat \<Rightarrow> string list \<Rightarrow> (population_out \<times> call list) list" where
  "population_rows envs idx [] = []"
| "population_rows envs idx (place # places) =
     (if py_strip place = [] then (population_empty_input place, [])
      else get_population_for_place (envs idx) place)
     # population_rows envs (Suc idx) places"

text \<open>
  \<open>pd.DataFrame(results)\<close> has the keys of the dictionaries as columns, hence none when
  \<open>results\<close> is empty, and \<open>drop(columns=["input_name"])\<close> raises \<open>KeyError\<close> on a frame
  without that column.
\<close>

definition population_process_excel ::
  "(nat \<Rightarrow> pop_env) \<Rightarrow> excel_read \<Rightarrow> (py_error + population_frame) \<times> call list" where
  "population_process_excel envs input =
     (case first_sheet input of
        Inl e \<Rightarrow> (Inl e, [])
      | Inr df \<Rightarrow>
          (case df of
             [] \<Rightarrow> (Inl (ValueError ''Input Excel must have at least one column with place names''),
                    [])
           | first_col # _ \<Rightarrow>
               (let places = map cell_str (snd first_col);
                    rows = population_rows envs 1 places;
                    results = map fst rows;
                    calls = concat (map snd rows)
                in if results = []
                   then (Inl (KeyError ''input_name not found in axis''), calls)
                   else (Inr \<lparr> pf_original = df,
                               pf_wikidata_id = map po_wikidata_id results,
                               pf_wikidata_label = map po_wikidata_label results,
                               pf_population = map po_population results,
                               pf_population_year = map po_population_year results,
                               pf_notes = map po_notes results \<rparr>,
                         calls))))"

subsection \<open>literacy\_agent.py\<close>

record literacy_frame =
  lf_original :: dataframe
  lf_wiki_title :: "string option list"
  lf_literacy :: "rat option list"
  lf_literacy_year :: "int option list"
  lf_notes :: "string option list"

definition literacy_empty_input :: "string \<Rightarrow> literacy_out" where
  "literacy_empty_input place =
     \<lparr> lo_input_name = place, lo_wiki_title = None, lo_literacy = None,
       lo_literacy_year = None, lo_notes = Some ''empty-input'' \<rparr>"

text \<open>The \<open>try\<close> around \<open>get_literacy_for_place\<close> in the loop.\<close>

definition literacy_row :: "lit_env \<Rightarrow> string \<Rightarrow> literacy_out \<times> call list" where
  "literacy_row env place =
     (case get_literacy_for_place env place of
        (Inr res, calls) \<Rightarrow> (res, calls)
      | (Inl e, calls) \<Rightarrow>
          (\<lparr> lo_input_name = place, lo_wiki_title = None, lo_literacy = None,
             lo_literacy_year = None, lo_notes = Some (''error: '' @ exc_str e) \<rparr>, calls))"

fun literacy_rows ::
  "(nat \<Rightarrow> lit_env) \<Rightarrow> nat \<Rightarrow> string list \<Rightarrow> (literacy_out \<times> call list) list" where
  "literacy_rows envs idx [] = []"
| "literacy_rows envs idx (place # places) =
     (if py_strip place = [] then (literacy_empty_input place, [])
      else literacy_row (envs idx) place)
     # literacy_rows envs (Suc idx) places"

definition literacy_process_excel ::
  "(nat \<Rightarrow> lit_env) \<Rightarrow> excel_read \<Rightarrow> (py_error + literacy_frame) \<times> call list" where
  "literacy_process_excel envs input =
     (case first_sheet input of
        Inl e \<Rightarrow> (Inl e, [])
      | Inr df \<Rightarrow>
          (case df of
             [] \<Rightarrow> (Inl (ValueError ''Input Excel must have at least one column with place names''),
                    [])
           | first_col # _ \<Rightarrow>
               (let places = map cell_str (snd first_col);
                    rows = literacy_rows envs 1 places;
                    results = map fst rows;
                    calls = concat (map snd rows)
                in if results = []
                   then (Inl (KeyError ''input_name not found in axis''), calls)
                   else (Inr \<lparr> lf_original = df,
                               lf_wiki_title = map lo_wiki_title results,
                               lf_literacy = map lo_literacy results,
                               lf_literacy_year = map lo_literacy_year results,
                               lf_notes = map lo_notes results \<rparr>,
                         calls))))"

text \<open>
  Example sheets: three rows, the second one blank; and a sheet that has its header row
  only.
\<close>

definition sheet_example :: dataframe where
  "sheet_example =
     [(''Place'', [CStr ''Anna Nagar'', CStr ''   '', CStr ''Chennai'']),
      (''District'', [CStr ''Chennai'', CNaN, CInt 600001])]"

definition sheet_header_only :: dataframe where
  "sheet_header_only = [(''Place'', [])]"

section \<open>Properties of the banking intelligence API\<close>

lemma calculate_risk_score_bounds:
  "0 \<le> calculate_risk_score m d" "calculate_risk_score m d \<le> 100"
  by (simp_all add: calculate_risk_score_def Let_def)

lemma calculate_risk_score_range:
  assumes "risk_draws_ok d"
  shows "20 \<le> calculate_risk_score m d" "calculate_risk_score m d \<le> 55"
  using assms by (auto simp: calculate_risk_score_def risk_draws_ok_def Let_def)

text \<open>
  Claim C6. Every response of \<open>GET /api/risk-assessment\<close> carries the score of
  \<open>_calculate_risk_score\<close>, which lies in \<open>[0, 100]\<close> whatever was drawn and in
  \<open>[20, 55]\<close> when the draws are in the ranges of their \<open>randint\<close> calls; the level is
  \<open>Low\<close> exactly below 30, \<open>Medium\<close> exactly from 30 up to but excluding 60, and \<open>High\<close>
  exactly from 60 on.
\<close>

theorem risk_assessment_score_and_level:
  "ra_overall_risk_score (get_risk_assessment m d) = calculate_risk_score m d
   \<and> 0 \<le> ra_overall_risk_score (get_risk_assessment m d)
   \<and> ra_overall_risk_score (get_risk_assessment m d) \<le> 100
   \<and> (risk_draws_ok d \<longrightarrow>
        20 \<le> ra_overall_risk_score (get_risk_assessment m d)
        \<and> ra_overall_risk_score (get_risk_assessment m d) \<le> 55)
   \<and> (ra_risk_level (get_risk_assessment m d) = ''Low''
        \<longleftrightarrow> ra_overall_risk_score (get_risk_assessment m d) < 30)
   \<and> (ra_risk_level (get_risk_assessment m d) = ''Medium''
        \<longleftrightarrow> 30 \<le> ra_overall_risk_score (get_risk_assessment m d)
            \<and> ra_overall_risk_score (get_risk_assessment m d) < 60)
   \<and> (ra_risk_level (get_risk_assessment m d) = ''High''
        \<longleftrightarrow> 60 \<le> ra_overall_risk_score (get_risk_assessment m d))"
proof -
  have score: "ra_overall_risk_score (get_risk_assessment m d) = calculate_risk_score m d"
    by (simp add: get_risk_assessment_def Let_def)
  have level: "ra_risk_level (get_risk_assessment m d) =
      (if calculate_risk_score m d < 30 then ''Low''
       else if calculate_risk_score m d < 60 then ''Medium'' else ''High'')"
    by (simp add: get_risk_assessment_def Let_def)
  show ?thesis
    unfolding score level
    using calculate_risk_score_bounds [of m d] calculate_risk_score_range [of d m]
    by auto
qed

theorem risk_assessment_score_and_level_witness:
  "risk_draws_ok \<lparr>base_draw = 25, monsoon_draw = -5\<rparr>
   \<and> ra_overall_risk_score (get_risk_assessment 7 \<lparr>base_draw = 25, monsoon_draw = -5\<rparr>) = 20
   \<and> ra_risk_level (get_risk_assessment 7 \<lparr>base_draw = 25, monsoon_draw = -5\<rparr>) = ''Low''
   \<and> ra_overall_risk_score (get_risk_assessment 7 \<lparr>base_draw = 45, monsoon_draw = 10\<rparr>) = 55
   \<and> ra_risk_level (get_risk_assessment 7 \<lparr>base_draw = 45, monsoon_draw = 10\<rparr>) = ''Medium''"
  using risk_assessment_score_and_level [of 7 "\<lparr>base_draw = 25, monsoon_draw = -5\<rparr>"]
    risk_assessment_score_and_level [of 7 "\<lparr>base_draw = 45, monsoon_draw = 10\<rparr>"]
  by (simp add: risk_draws_ok_def calculate_risk_score_def)




section \<open>Properties of the risk scores of the generators\<close>

lemma clip_bounds:
  assumes "lo \<le> hi"
  shows "lo \<le> clip a lo hi" "clip a lo hi \<le> hi"
  using assms by (simp_all add: clip_def)

lemma cb_score_row_components:
  "cb_demographic_risk_score (cb_score_row r) = clip (of_int (cb_demo_risk r) * 0.18) 0 100"
  "cb_financial_risk_score (cb_score_row r) = clip (of_int (cb_financial_risk r) * 0.25) 0 100"
  "cb_asset_collateral_risk_score (cb_score_row r) = clip (of_int (cb_asset_risk r) * 0.22) 0 100"
  "cb_social_digital_risk_score (cb_score_row r) = clip (of_int (cb_social_risk r) * 0.15) 0 100"
  "cb_infrastructure_risk_score (cb_score_row r) =
     clip (of_int (cb_infrastructure_risk r) * 0.12) 0 100"
  "cb_documentation_risk_score (cb_score_row r) = clip (of_int (cb_doc_risk r) * 0.08) 0 100"
  by (simp_all add: cb_score_row_def Let_def cb_borrower.defs cb_scored.defs)

lemma cb_score_row_overall:
  "cb_overall_risk_score (cb_score_row r) =
     cb_demographic_risk_score (cb_score_row r) * 0.18 +
     cb_financial_risk_score (cb_score_row r) * 0.25 +
     cb_asset_collateral_risk_score (cb_score_row r) * 0.22 +
     cb_social_digital_risk_score (cb_score_row r) * 0.15 +
     cb_infrastructure_risk_score (cb_score_row r) * 0.12 +
     cb_documentation_risk_score (cb_score_row r) * 0.08"
  by (simp add: cb_score_row_def Let_def cb_borrower.defs cb_scored.defs)


lemma eb_score_row_components:
  "eb_demographic_risk_score (eb_score_row r) = clip (of_int (eb_demo_risk r) * 0.2) 0 100"
  "eb_financial_risk_score (eb_score_row r) = clip (of_int (eb_financial_risk r) * 0.3) 0 100"
  "eb_asset_infrastructure_risk_score (eb_score_row r) =
     clip (of_int (eb_asset_risk r) * 0.25) 0 100"
  "eb_social_behavioral_risk_score (eb_score_row r) =
     clip (of_int (eb_social_risk r) * 0.15) 0 100"
  "eb_documentation_risk_score (eb_score_row r) = clip (of_int (eb_doc_risk r) * 0.1) 0 100"
  by (simp_all add: eb_score_row_def Let_def eb_borrower.defs eb_scored.defs)

lemma eb_score_row_overall:
  "eb_overall_risk_score (eb_score_row r) =
     eb_demographic_risk_score (eb_score_row r) * 0.2 +
     eb_financial_risk_score (eb_score_row r) * 0.3 +
     eb_asset_infrastructure_risk_score (eb_score_row r) * 0.25 +
     eb_social_behavioral_risk_score (eb_score_row r) * 0.15 +
     eb_documentation_risk_score (eb_score_row r) * 0.1"
  by (simp add: eb_score_row_def Let_def eb_borrower.defs eb_scored.defs)

text \<open>
  Claim C1. In every data frame returned by \<open>calculate_comprehensive_risk_scores\<close> the
  overall risk score of each row is the linear combination of the row's component scores
  with constant weights: 0.18, 0.25, 0.22, 0.15, 0.12, 0.08 in
  \<open>comprehensive_excel_generator\<close> and 0.2, 0.3, 0.25, 0.15, 0.1 in
  \<open>excel_based_data_generator\<close>. The weights are numerals: no row enters them.
\<close>

theorem overall_risk_fixed_weight_combination:
  "(\<forall>r \<in> set (ceg_calculate_comprehensive_risk_scores df).
      cb_overall_risk_score r =
        weighted_sum [0.18, 0.25, 0.22, 0.15, 0.12, 0.08]
          [cb_demographic_risk_score r, cb_financial_risk_score r,
           cb_asset_collateral_risk_score r, cb_social_digital_risk_score r,
           cb_infrastructure_risk_score r, cb_documentation_risk_score r])
   \<and> (\<forall>r \<in> set (ebg_calculate_comprehensive_risk_scores df').
      eb_overall_risk_score r =
        weighted_sum [0.2, 0.3, 0.25, 0.15, 0.1]
          [eb_demographic_risk_score r, eb_financial_risk_score r,
           eb_asset_infrastructure_risk_score r, eb_social_behavioral_risk_score r,
           eb_documentation_risk_score r])"
proof (intro conjI ballI)
  fix r assume "r \<in> set (ceg_calculate_comprehensive_risk_scores df)"
  then obtain b where r: "r = cb_score_row b"
    by (auto simp: ceg_calculate_comprehensive_risk_scores_def)
  show "cb_overall_risk_score r =
        weighted_sum [0.18, 0.25, 0.22, 0.15, 0.12, 0.08]
          [cb_demographic_risk_score r, cb_financial_risk_score r,
           cb_asset_collateral_risk_score r, cb_social_digital_risk_score r,
           cb_infrastructure_risk_score r, cb_documentation_risk_score r]"
    unfolding r cb_score_row_overall weighted_sum_def by (simp add: algebra_simps)
next
  fix r assume "r \<in> set (ebg_calculate_comprehensive_risk_scores df')"
  then obtain b where r: "r = eb_score_row b"
    by (auto simp: ebg_calculate_comprehensive_risk_scores_def)
  show "eb_overall_risk_score r =
        weighted_sum [0.2, 0.3, 0.25, 0.15, 0.1]
          [eb_demographic_risk_score r, eb_financial_risk_score r,
           eb_asset_infrastructure_risk_score r, eb_social_behavioral_risk_score r,
           eb_documentation_risk_score r]"
    unfolding r eb_score_row_overall weighted_sum_def by (simp add: algebra_simps)
qed

lemma cb_example_scores:
  "cb_demographic_risk_score (cb_score_row cb_example) = 243 / 25"
  "cb_financial_risk_score (cb_score_row cb_example) = 115 / 4"
  "cb_asset_collateral_risk_score (cb_score_row cb_example) = 473 / 25"
  "cb_social_digital_risk_score (cb_score_row cb_example) = 57 / 4"
  "cb_infrastructure_risk_score (cb_score_row cb_example) = 189 / 25"
  "cb_documentation_risk_score (cb_score_row cb_example) = 144 / 25"
  unfolding cb_score_row_components
  by (simp_all add: cb_example_def cb_demo_risk_def cb_financial_risk_def cb_asset_risk_def
      cb_social_risk_def cb_infrastructure_risk_def cb_doc_risk_def astype_int_def clip_def
      series_div_def option_get_def Let_def)

lemma eb_example_scores:
  "eb_demographic_risk_score (eb_score_row eb_example) = 0"
  "eb_financial_risk_score (eb_score_row eb_example) = 9"
  "eb_asset_infrastructure_risk_score (eb_score_row eb_example) = 10"
  "eb_social_behavioral_risk_score (eb_score_row eb_example) = 0"
  "eb_documentation_risk_score (eb_score_row eb_example) = 1"
  unfolding eb_score_row_components
  by (simp_all add: eb_example_def eb_demo_risk_def eb_financial_risk_def eb_asset_risk_def
      eb_social_risk_def eb_doc_risk_def astype_int_def clip_def series_div_def Let_def)

theorem overall_risk_fixed_weight_combination_witness:
  "cb_score_row cb_example \<in> set (ceg_calculate_comprehensive_risk_scores [cb_example])
   \<and> cb_overall_risk_score (cb_score_row cb_example) = 3321 / 200
   \<and> eb_score_row eb_example \<in> set (ebg_calculate_comprehensive_risk_scores [eb_example])
   \<and> eb_overall_risk_score (eb_score_row eb_example) = 53 / 10"
  using overall_risk_fixed_weight_combination [of "[cb_example]" "[eb_example]"]
  by (simp add: ceg_calculate_comprehensive_risk_scores_def
      ebg_calculate_comprehensive_risk_scores_def weighted_sum_def cb_example_scores
      eb_example_scores)

lemma cb_component_bounds:
  "0 \<le> cb_demographic_risk_score (cb_score_row r)"
  "cb_demographic_risk_score (cb_score_row r) \<le> 100"
  "0 \<le> cb_financial_risk_score (cb_score_row r)"
  "cb_financial_risk_score (cb_score_row r) \<le> 100"
  "0 \<le> cb_asset_collateral_risk_score (cb_score_row r)"
  "cb_asset_collateral_risk_score (cb_score_row r) \<le> 100"
  "0 \<le> cb_social_digital_risk_score (cb_score_row r)"
  "cb_social_digital_risk_score (cb_score_row r) \<le> 100"
  "0 \<le> cb_infrastructure_risk_score (cb_score_row r)"
  "cb_infrastructure_risk_score (cb_score_row r) \<le> 100"
  "0 \<le> cb_documentation_risk_score (cb_score_row r)"
  "cb_documentation_risk_score (cb_score_row r) \<le> 100"
  unfolding cb_score_row_components by (simp_all add: clip_bounds)

lemma cb_overall_bounds:
  "0 \<le> cb_overall_risk_score (cb_score_row r)" "cb_overall_risk_score (cb_score_row r) \<le> 100"
  unfolding cb_score_row_overall using cb_component_bounds [of r] by simp_all

lemma eb_component_bounds:
  "0 \<le> eb_demographic_risk_score (eb_score_row r)"
  "eb_demographic_risk_score (eb_score_row r) \<le> 100"
  "0 \<le> eb_financial_risk_score (eb_score_row r)"
  "eb_financial_risk_score (eb_score_row r) \<le> 100"
  "0 \<le> eb_asset_infrastructure_risk_score (eb_score_row r)"
  "eb_asset_infrastructure_risk_score (eb_score_row r) \<le> 100"
  "0 \<le> eb_social_behavioral_risk_score (eb_score_row r)"
  "eb_social_behavioral_risk_score (eb_score_row r) \<le> 100"
  "0 \<le> eb_documentation_risk_score (eb_score_row r)"
  "eb_documentation_risk_score (eb_score_row r) \<le> 100"
  unfolding eb_score_row_components by (simp_all add: clip_bounds)

lemma eb_overall_bounds:
  "0 \<le> eb_overall_risk_score (eb_score_row r)" "eb_overall_risk_score (eb_score_row r) \<le> 100"
  unfolding eb_score_row_overall using eb_component_bounds [of r] by simp_all

lemma sample_borrower_bounds:
  assumes "sd_draws_ok d"
  shows "\<exists>b. sample_borrower d = Inr b
           \<and> (\<forall>v \<in> snd ` set (sd_risk_factors b). 0 \<le> v \<and> v \<le> 1)
           \<and> 0 \<le> sd_overall_risk_score b \<and> sd_overall_risk_score b \<le> 1"
proof -
  from assms have inc: "0 \<le> sd_income d" and cr: "0 \<le> sd_credit_history d"
    and ed: "sd_education d \<in> set [''none'', ''primary'', ''secondary'', ''higher'']"
    by (simp_all add: sd_draws_ok_def)
  from ed consider "sd_education d = ''none''" | "sd_education d = ''primary''"
    | "sd_education d = ''secondary''" | "sd_education d = ''higher''" by auto
  then show ?thesis
    using inc cr
    by cases (auto simp: sample_borrower_def dict_index_def Let_def max_def)
qed

lemma round_half_even_lower:
  assumes "of_int a \<le> y"
  shows "a \<le> round_half_even y"
proof -
  have "a \<le> \<lfloor>y\<rfloor>" using assms by (simp add: le_floor_iff)
  then show ?thesis by (auto simp: round_half_even_def Let_def)
qed

lemma round_half_even_upper:
  assumes "y \<le> of_int b"
  shows "round_half_even y \<le> b"
proof (cases "y = of_int b")
  case True
  then show ?thesis by (simp add: round_half_even_def Let_def)
next
  case False
  with assms have "y < of_int b" by simp
  then have "\<lfloor>y\<rfloor> < b" by (simp add: floor_less_iff)
  then show ?thesis by (auto simp: round_half_even_def Let_def)
qed

lemma py_round4_unit:
  assumes "0 \<le> x" "x \<le> 1"
  shows "0 \<le> py_round4 x" "py_round4 x \<le> 1"
proof -
  have "of_int 0 \<le> x * 10000" using assms by simp
  then have "0 \<le> round_half_even (x * 10000)" by (rule round_half_even_lower)
  then show "0 \<le> py_round4 x" by (simp add: py_round4_def)
  have "x * 10000 \<le> of_int 10000" using assms by simp
  then have "round_half_even (x * 10000) \<le> 10000" by (rule round_half_even_upper)
  then have "rat_of_int (round_half_even (x * 10000)) \<le> 10000"
    by (metis of_int_le_iff of_int_numeral)
  then show "py_round4 x \<le> 1" by (simp add: py_round4_def)
qed

lemma calculate_demographic_risk_unit:
  "0 \<le> calculate_demographic_risk age income education family_size"
  "calculate_demographic_risk age income education family_size \<le> 1"
proof -
  define m where "m = [(''illiterate'', 0.8), (''primary'', 0.6), (''secondary'', 0.4),
             (''higher_secondary'', 0.3), (''graduate'', 0.1), (''postgraduate'', 0.05 :: rat)]"
  have e: "0 \<le> dict_get m education 0.5 \<and> dict_get m education 0.5 \<le> 1"
    by (simp add: dict_get_def m_def)
  define e_r where "e_r = dict_get m education 0.5"
  define i_r where "i_r = max 0 (min 1 ((30000 - rat_of_int income) / 30000))"
  define f_r where "f_r = min 1 (max 0 ((rat_of_int family_size - 4) * 0.1))"
  have i: "0 \<le> i_r" "i_r \<le> 1" by (simp_all add: i_r_def)
  have f: "0 \<le> f_r" "f_r \<le> 1" by (simp_all add: f_r_def)
  have eq: "calculate_demographic_risk age income education family_size =
      ((if 25 \<le> age \<and> age \<le> 50 then 0.1 else if age < 25 \<or> age > 60 then 0.7 else 0.4)
        + i_r + e_r + f_r) / 4"
    by (simp add: calculate_demographic_risk_def Let_def i_r_def e_r_def f_r_def m_def)
  show "0 \<le> calculate_demographic_risk age income education family_size"
    unfolding eq using i f e by (auto simp: e_r_def)
  show "calculate_demographic_risk age income education family_size \<le> 1"
    unfolding eq using i f e by (auto simp: e_r_def)
qed

lemma calculate_financial_risk_unit:
  assumes "0 \<le> credit_months" "0 \<le> existing_loans" "income \<noteq> 0"
  shows "\<exists>v. calculate_financial_risk credit_months existing_loans has_savings income expenses
               = Inr v \<and> 0 \<le> v \<and> v \<le> 1"
proof -
  define c_r where "c_r = (if credit_months < 24 then max 0 ((24 - rat_of_int credit_months) / 24)
                         else 0.1)"
  define l_r where "l_r = min 1 (rat_of_int existing_loans / 3)"
  define x_r where "x_r = max 0 (min 1 ((rat_of_int expenses / rat_of_int income - 0.5) / 0.3))"
  have c: "0 \<le> c_r" "c_r \<le> 1" using assms(1) by (auto simp: c_r_def)
  have l: "0 \<le> l_r" "l_r \<le> 1" using assms(2) by (auto simp: l_r_def)
  have x: "0 \<le> x_r" "x_r \<le> 1" by (simp_all add: x_r_def)
  have eq: "calculate_financial_risk credit_months existing_loans has_savings income expenses
      = Inr ((c_r + l_r + (if has_savings then 0.2 else 0.6) + x_r) / 4)"
    using assms(3)
    by (simp add: calculate_financial_risk_def py_truediv_def Let_def c_r_def l_r_def x_r_def)
  have "0 \<le> (c_r + l_r + (if has_savings then 0.2 else 0.6) + x_r) / 4"
    using c l x by simp
  moreover have "(c_r + l_r + (if has_savings then 0.2 else 0.6) + x_r) / 4 \<le> 1"
    using c l x by simp
  ultimately show ?thesis unfolding eq by blast
qed

lemma calculate_asset_risk_unit:
  assumes "0 \<le> land_size" "0 \<le> livestock_count"
  shows "0 \<le> calculate_asset_risk owns_land land_size owns_livestock livestock_count"
    "calculate_asset_risk owns_land land_size owns_livestock livestock_count \<le> 1"
  using assms by (auto simp: calculate_asset_risk_def Let_def max_def field_simps)

lemma calculate_geographic_risk_unit:
  assumes "0 \<le> bank_distance" "0 \<le> market_distance" "1 \<le> road_score" "road_score \<le> 5"
  shows "0 \<le> calculate_geographic_risk bank_distance market_distance road_score has_electricity"
    "calculate_geographic_risk bank_distance market_distance road_score has_electricity \<le> 1"
  using assms by (auto simp: calculate_geographic_risk_def Let_def min_def field_simps)

lemma calculate_social_risk_unit:
  "0 \<le> calculate_social_risk shg_member govt_beneficiary mobile_phone"
  "calculate_social_risk shg_member govt_beneficiary mobile_phone \<le> 1"
  by (auto simp: calculate_social_risk_def Let_def)

lemma dict_index_range:
  assumes "k \<in> fst ` set d"
  shows "\<exists>v. dict_index d k = Inr v \<and> v \<in> snd ` set d"
proof (cases "map_of d k")
  case None
  with assms show ?thesis by (simp add: map_of_eq_None_iff)
next
  case (Some v)
  then have "(k, v) \<in> set d" by (rule map_of_SomeD)
  then have "v \<in> snd ` set d" by force
  with Some show ?thesis by (simp add: dict_index_def)
qed

lemma dict_get_range: "dict_get d k dflt \<in> insert dflt (snd ` set d)"
proof (cases "map_of d k")
  case None
  then show ?thesis by (simp add: dict_get_def)
next
  case (Some v)
  then have "(k, v) \<in> set d" by (rule map_of_SomeD)
  then have "v \<in> snd ` set d" by force
  with Some show ?thesis by (simp add: dict_get_def)
qed

lemma enhanced_borrower_bounds:
  assumes "en_attrs_ok a"
  shows "\<exists>b. enhanced_borrower a = Inr b
           \<and> 0 \<le> en_demographic_risk b \<and> en_demographic_risk b \<le> 1
           \<and> 0 \<le> en_financial_risk b \<and> en_financial_risk b \<le> 1
           \<and> 0 \<le> en_asset_risk b \<and> en_asset_risk b \<le> 1
           \<and> 0 \<le> en_geographic_risk b \<and> en_geographic_risk b \<le> 1
           \<and> 0 \<le> en_social_risk b \<and> en_social_risk b \<le> 1
           \<and> 0 \<le> en_overall_risk_score b \<and> en_overall_risk_score b \<le> 1"
proof -
  define dr where "dr = calculate_demographic_risk (en_age a) (en_income a) (en_education a)
              (en_family_size a)"
  define ar where "ar = calculate_asset_risk (en_owns_land a) (en_land_size_acres a)
                      (en_owns_livestock a) (en_livestock_count a)"
  define gr where "gr = calculate_geographic_risk (en_distance_to_bank a) (en_distance_to_market a)
                      (en_road_connectivity a) (en_electricity_access a)"
  define sr where "sr = calculate_social_risk (en_group_membership a)
                      (en_government_scheme_beneficiary a) (en_mobile_phone_ownership a)"
  from assms have "0 \<le> en_credit_history_months a" "0 \<le> en_existing_loans a" "en_income a \<noteq> 0"
    by (simp_all add: en_attrs_ok_def)
  from calculate_financial_risk_unit [OF this]
  obtain fr where fr: "calculate_financial_risk (en_credit_history_months a) (en_existing_loans a)
      (en_has_savings_account a) (en_income a) (en_monthly_expenses a) = Inr fr"
    and f: "0 \<le> fr" "fr \<le> 1" by blast
  have d: "0 \<le> dr" "dr \<le> 1" unfolding dr_def by (rule calculate_demographic_risk_unit)+
  from assms have "0 \<le> en_land_size_acres a" "0 \<le> en_livestock_count a"
    by (simp_all add: en_attrs_ok_def split: if_splits)
  then have as: "0 \<le> ar" "ar \<le> 1" unfolding ar_def by (rule calculate_asset_risk_unit)+
  from assms have "0 \<le> en_distance_to_bank a" "0 \<le> en_distance_to_market a"
    "1 \<le> en_road_connectivity a" "en_road_connectivity a \<le> 5"
    by (simp_all add: en_attrs_ok_def)
  then have g: "0 \<le> gr" "gr \<le> 1" unfolding gr_def by (rule calculate_geographic_risk_unit)+
  have s: "0 \<le> sr" "sr \<le> 1" unfolding sr_def by (rule calculate_social_risk_unit)+
  define ov where "ov = dr * 0.20 + fr * 0.30 + ar * 0.20 + gr * 0.20 + sr * 0.10"
  have o: "0 \<le> ov" "ov \<le> 1" unfolding ov_def using d f as g s by simp_all
  have eq: "enhanced_borrower a =
      Inr \<lparr> en_demographic_risk = py_round4 dr, en_financial_risk = py_round4 fr,
            en_asset_risk = py_round4 ar, en_geographic_risk = py_round4 gr,
            en_social_risk = py_round4 sr, en_overall_risk_score = py_round4 ov,
            en_risk_category = categorize_risk ov \<rparr>"
    by (simp add: enhanced_borrower_def fr Let_def dr_def ar_def gr_def sr_def ov_def)
  show ?thesis unfolding eq
    using py_round4_unit [OF d] py_round4_unit [OF f] py_round4_unit [OF as]
      py_round4_unit [OF g] py_round4_unit [OF s] py_round4_unit [OF o]
    by simp
qed

lemma ax_calculate_demographic_risk_unit:
  assumes "education \<in> set [''none'', ''primary'', ''secondary'', ''higher_secondary'', ''graduate'']"
    and "0 \<le> income"
  shows "\<exists>v. ax_calculate_demographic_risk age income education occupation = Inr v
              \<and> 0 \<le> v \<and> v \<le> 1"
proof -
  define m where "m = [(''farmer'', 0.4), (''agricultural_laborer'', 0.7),
                              (''daily_wage'', 0.8), (''small_business'', 0.5),
                              (''service'', 0.2), (''artisan'', 0.6), (''livestock'', 0.5),
                              (''fishery'', 0.6 :: rat)]"
  define o_r where "o_r = dict_get m occupation 0.5"
  define i_r where "i_r = max 0 (1 - rat_of_int income / 150000)"
  have "o_r \<in> insert 0.5 (snd ` set m)" unfolding o_r_def by (rule dict_get_range)
  then have oc: "0 \<le> o_r" "o_r \<le> 1" by (auto simp: m_def)
  have i: "0 \<le> i_r" "i_r \<le> 1" using assms(2) by (simp_all add: i_r_def)
  define em where "em = [(''none'', 0.8), (''primary'', 0.6), (''secondary'', 0.4),
                          (''higher_secondary'', 0.3), (''graduate'', 0.1 :: rat)]"
  have "education \<in> fst ` set em" using assms(1) by (simp add: em_def)
  from dict_index_range [OF this]
  obtain e_r where ix: "dict_index em education = Inr e_r" and "e_r \<in> snd ` set em"
    by blast
  then have e: "0 \<le> e_r" "e_r \<le> 1" by (auto simp: em_def)
  have eq: "ax_calculate_demographic_risk age income education occupation =
      Inr (((if age < 25 \<or> age > 55 then 0.3 else 0.1) + i_r + e_r + o_r) / 4)"
    unfolding ax_calculate_demographic_risk_def Let_def em_def [symmetric] m_def [symmetric]
      ix i_r_def o_r_def
    by simp
  have "0 \<le> ((if age < 25 \<or> age > 55 then 0.3 else 0.1) + i_r + e_r + o_r) / 4"
    using oc i e by simp
  moreover have "((if age < 25 \<or> age > 55 then 0.3 else 0.1) + i_r + e_r + o_r) / 4 \<le> 1"
    using oc i e by simp
  ultimately show ?thesis unfolding eq by blast
qed

lemma ax_calculate_financial_risk_unit:
  assumes "0 \<le> credit_score" "0 \<le> existing_loans" "income \<noteq> 0"
  shows "\<exists>v. ax_calculate_financial_risk credit_score existing_loans has_savings income expenses
               = Inr v \<and> 0 \<le> v \<and> v \<le> 1"
proof -
  define c_r where "c_r = max 0 (1 - credit_score / 10)"
  define l_r where "l_r = min 1 (rat_of_int existing_loans / 3)"
  define x_r where "x_r = max 0 (min 1 (rat_of_int expenses / rat_of_int income))"
  have c: "0 \<le> c_r" "c_r \<le> 1" using assms(1) by (auto simp: c_r_def)
  have l: "0 \<le> l_r" "l_r \<le> 1" using assms(2) by (auto simp: l_r_def)
  have x: "0 \<le> x_r" "x_r \<le> 1" by (simp_all add: x_r_def)
  have eq: "ax_calculate_financial_risk credit_score existing_loans has_savings income expenses
      = Inr ((c_r + l_r + (if has_savings then 0.2 else 0.7) + x_r) / 4)"
    using assms(3)
    by (simp add: ax_calculate_financial_risk_def py_truediv_def Let_def c_r_def l_r_def x_r_def)
  have "0 \<le> (c_r + l_r + (if has_savings then 0.2 else 0.7) + x_r) / 4"
    using c l x by simp
  moreover have "(c_r + l_r + (if has_savings then 0.2 else 0.7) + x_r) / 4 \<le> 1"
    using c l x by simp
  ultimately show ?thesis unfolding eq by blast
qed

lemma ax_calculate_geographic_risk_unit:
  assumes "0 \<le> market_distance" "0 \<le> infrastructure_score"
  shows "0 \<le> ax_calculate_geographic_risk market_distance infrastructure_score"
    "ax_calculate_geographic_risk market_distance infrastructure_score \<le> 1"
  using assms by (auto simp: ax_calculate_geographic_risk_def Let_def min_def max_def field_simps)

lemma analyzed_borrower_bounds:
  assumes "ax_attrs_ok a"
  shows "\<exists>b. analyzed_borrower a = Inr b
           \<and> 0 \<le> ax_demographic_risk b \<and> ax_demographic_risk b \<le> 1
           \<and> 0 \<le> ax_financial_risk b \<and> ax_financial_risk b \<le> 1
           \<and> 0 \<le> ax_geographic_risk b \<and> ax_geographic_risk b \<le> 1
           \<and> 0 \<le> ax_behavioral_risk b \<and> ax_behavioral_risk b \<le> 1
           \<and> 0 \<le> ax_overall_risk_score b \<and> ax_overall_risk_score b \<le> 1"
proof -
  from assms have "ax_education a \<in>
      set [''none'', ''primary'', ''secondary'', ''higher_secondary'', ''graduate'']"
    "0 \<le> ax_income a"
    by (simp_all add: ax_attrs_ok_def)
  from ax_calculate_demographic_risk_unit [OF this]
  obtain dr where dr: "ax_calculate_demographic_risk (ax_age a) (ax_income a) (ax_education a)
      (ax_occupation a) = Inr dr" and d: "0 \<le> dr" "dr \<le> 1" by blast
  from assms have "0 \<le> ax_credit_history_score a" "0 \<le> ax_existing_loans a" "ax_income a \<noteq> 0"
    by (simp_all add: ax_attrs_ok_def)
  from ax_calculate_financial_risk_unit [OF this]
  obtain fr where fr: "ax_calculate_financial_risk (ax_credit_history_score a)
      (ax_existing_loans a) (ax_has_savings a) (ax_income a) (ax_monthly_expenses a) = Inr fr"
    and f: "0 \<le> fr" "fr \<le> 1" by blast
  define gr where "gr = ax_calculate_geographic_risk (ax_market_distance a)
                        (ax_infrastructure_access a)"
  define br where "br = ax_calculate_behavioral_risk (ax_seasonal_income_variation a)"
  from assms have "0 \<le> ax_market_distance a" "0 \<le> ax_infrastructure_access a"
    by (simp_all add: ax_attrs_ok_def)
  then have g: "0 \<le> gr" "gr \<le> 1" unfolding gr_def by (rule ax_calculate_geographic_risk_unit)+
  from assms have b: "0 \<le> br" "br \<le> 1"
    by (simp_all add: ax_attrs_ok_def br_def ax_calculate_behavioral_risk_def)
  define ov where "ov = dr * 0.25 + fr * 0.35 + gr * 0.20 + br * 0.20"
  have o: "0 \<le> ov" "ov \<le> 1" unfolding ov_def using d f g b by simp_all
  have eq: "analyzed_borrower a =
      Inr \<lparr> ax_demographic_risk = py_round4 dr, ax_financial_risk = py_round4 fr,
            ax_geographic_risk = py_round4 gr, ax_behavioral_risk = py_round4 br,
            ax_overall_risk_score = py_round4 ov, ax_risk_category = categorize_risk ov \<rparr>"
    by (simp add: analyzed_borrower_def dr fr Let_def gr_def br_def ov_def)
  show ?thesis unfolding eq
    using py_round4_unit [OF d] py_round4_unit [OF f] py_round4_unit [OF g]
      py_round4_unit [OF b] py_round4_unit [OF o]
    by simp
qed

text \<open>
  Claim C2. Every component risk score and the overall risk score of every record the
  generators produce lies in \<open>[0, 100]\<close>: for the two data-frame generators on any data
  frame (the components are clipped, the weights are non-negative and sum to 1), and for
  \<open>generate_sample_data\<close>, \<open>generate_enhanced_data\<close> and \<open>analyze_excel_data\<close> on every
  record whose random draws lie in the ranges of their calls (there the scores are means
  of factors in \<open>[0, 1]\<close>).
\<close>

theorem risk_scores_within_0_100:
  "(\<forall>r \<in> set (ceg_calculate_comprehensive_risk_scores df).
      0 \<le> cb_demographic_risk_score r \<and> cb_demographic_risk_score r \<le> 100
      \<and> 0 \<le> cb_financial_risk_score r \<and> cb_financial_risk_score r \<le> 100
      \<and> 0 \<le> cb_asset_collateral_risk_score r \<and> cb_asset_collateral_risk_score r \<le> 100
      \<and> 0 \<le> cb_social_digital_risk_score r \<and> cb_social_digital_risk_score r \<le> 100
      \<and> 0 \<le> cb_infrastructure_risk_score r \<and> cb_infrastructure_risk_score r \<le> 100
      \<and> 0 \<le> cb_documentation_risk_score r \<and> cb_documentation_risk_score r \<le> 100
      \<and> 0 \<le> cb_overall_risk_score r \<and> cb_overall_risk_score r \<le> 100)
   \<and> (\<forall>r \<in> set (ebg_calculate_comprehensive_risk_scores df').
      0 \<le> eb_demographic_risk_score r \<and> eb_demographic_risk_score r \<le> 100
      \<and> 0 \<le> eb_financial_risk_score r \<and> eb_financial_risk_score r \<le> 100
      \<and> 0 \<le> eb_asset_infrastructure_risk_score r \<and> eb_asset_infrastructure_risk_score r \<le> 100
      \<and> 0 \<le> eb_social_behavioral_risk_score r \<and> eb_social_behavioral_risk_score r \<le> 100
      \<and> 0 \<le> eb_documentation_risk_score r \<and> eb_documentation_risk_score r \<le> 100
      \<and> 0 \<le> eb_overall_risk_score r \<and> eb_overall_risk_score r \<le> 100)
   \<and> (sd_draws_ok d \<longrightarrow>
        (\<exists>b. sample_borrower d = Inr b
           \<and> (\<forall>v \<in> snd ` set (sd_risk_factors b). 0 \<le> v \<and> v \<le> 100)
           \<and> 0 \<le> sd_overall_risk_score b \<and> sd_overall_risk_score b \<le> 100))
   \<and> (en_attrs_ok a \<longrightarrow>
        (\<exists>b. enhanced_borrower a = Inr b
           \<and> 0 \<le> en_demographic_risk b \<and> en_demographic_risk b \<le> 100
           \<and> 0 \<le> en_financial_risk b \<and> en_financial_risk b \<le> 100
           \<and> 0 \<le> en_asset_risk b \<and> en_asset_risk b \<le> 100
           \<and> 0 \<le> en_geographic_risk b \<and> en_geographic_risk b \<le> 100
           \<and> 0 \<le> en_social_risk b \<and> en_social_risk b \<le> 100
           \<and> 0 \<le> en_overall_risk_score b \<and> en_overall_risk_score b \<le> 100))
   \<and> (ax_attrs_ok x \<longrightarrow>
        (\<exists>b. analyzed_borrower x = Inr b
           \<and> 0 \<le> ax_demographic_risk b \<and> ax_demographic_risk b \<le> 100
           \<and> 0 \<le> ax_financial_risk b \<and> ax_financial_risk b \<le> 100
           \<and> 0 \<le> ax_geographic_risk b \<and> ax_geographic_risk b \<le> 100
           \<and> 0 \<le> ax_behavioral_risk b \<and> ax_behavioral_risk b \<le> 100
           \<and> 0 \<le> ax_overall_risk_score b \<and> ax_overall_risk_score b \<le> 100))"
proof -
  have p1: "\<forall>r \<in> set (ceg_calculate_comprehensive_risk_scores df).
      0 \<le> cb_demographic_risk_score r \<and> cb_demographic_risk_score r \<le> 100
      \<and> 0 \<le> cb_financial_risk_score r \<and> cb_financial_risk_score r \<le> 100
      \<and> 0 \<le> cb_asset_collateral_risk_score r \<and> cb_asset_collateral_risk_score r \<le> 100
      \<and> 0 \<le> cb_social_digital_risk_score r \<and> cb_social_digital_risk_score r \<le> 100
      \<and> 0 \<le> cb_infrastructure_risk_score r \<and> cb_infrastructure_risk_score r \<le> 100
      \<and> 0 \<le> cb_documentation_risk_score r \<and> cb_documentation_risk_score r \<le> 100
      \<and> 0 \<le> cb_overall_risk_score r \<and> cb_overall_risk_score r \<le> 100"
  proof
    fix r assume "r \<in> set (ceg_calculate_comprehensive_risk_scores df)"
    then obtain b where r: "r = cb_score_row b"
      by (auto simp: ceg_calculate_comprehensive_risk_scores_def)
    show "0 \<le> cb_demographic_risk_score r \<and> cb_demographic_risk_score r \<le> 100
        \<and> 0 \<le> cb_financial_risk_score r \<and> cb_financial_risk_score r \<le> 100
        \<and> 0 \<le> cb_asset_collateral_risk_score r \<and> cb_asset_collateral_risk_score r \<le> 100
        \<and> 0 \<le> cb_social_digital_risk_score r \<and> cb_social_digital_risk_score r \<le> 100
        \<and> 0 \<le> cb_infrastructure_risk_score r \<and> cb_infrastructure_risk_score r \<le> 100
        \<and> 0 \<le> cb_documentation_risk_score r \<and> cb_documentation_risk_score r \<le> 100
        \<and> 0 \<le> cb_overall_risk_score r \<and> cb_overall_risk_score r \<le> 100"
      unfolding r by (intro conjI cb_component_bounds cb_overall_bounds)
  qed
  have p2: "\<forall>r \<in> set (ebg_calculate_comprehensive_risk_scores df').
      0 \<le> eb_demographic_risk_score r \<and> eb_demographic_risk_score r \<le> 100
      \<and> 0 \<le> eb_financial_risk_score r \<and> eb_financial_risk_score r \<le> 100
      \<and> 0 \<le> eb_asset_infrastructure_risk_score r \<and> eb_asset_infrastructure_risk_score r \<le> 100
      \<and> 0 \<le> eb_social_behavioral_risk_score r \<and> eb_social_behavioral_risk_score r \<le> 100
      \<and> 0 \<le> eb_documentation_risk_score r \<and> eb_documentation_risk_score r \<le> 100
      \<and> 0 \<le> eb_overall_risk_score r \<and> eb_overall_risk_score r \<le> 100"
  proof
    fix r assume "r \<in> set (ebg_calculate_comprehensive_risk_scores df')"
    then obtain b where r: "r = eb_score_row b"
      by (auto simp: ebg_calculate_comprehensive_risk_scores_def)
    show "0 \<le> eb_demographic_risk_score r \<and> eb_demographic_risk_score r \<le> 100
        \<and> 0 \<le> eb_financial_risk_score r \<and> eb_financial_risk_score r \<le> 100
        \<and> 0 \<le> eb_asset_infrastructure_risk_score r \<and> eb_asset_infrastructure_risk_score r \<le> 100
        \<and> 0 \<le> eb_social_behavioral_risk_score r \<and> eb_social_behavioral_risk_score r \<le> 100
        \<and> 0 \<le> eb_documentation_risk_score r \<and> eb_documentation_risk_score r \<le> 100
        \<and> 0 \<le> eb_overall_risk_score r \<and> eb_overall_risk_score r \<le> 100"
      unfolding r by (intro conjI eb_component_bounds eb_overall_bounds)
  qed
  have p3: "sd_draws_ok d \<longrightarrow>
      (\<exists>b. sample_borrower d = Inr b
           \<and> (\<forall>v \<in> snd ` set (sd_risk_factors b). 0 \<le> v \<and> v \<le> 100)
           \<and> 0 \<le> sd_overall_risk_score b \<and> sd_overall_risk_score b \<le> 100)"
  proof
    assume "sd_draws_ok d"
    from sample_borrower_bounds [OF this]
    obtain b where b: "sample_borrower d = Inr b"
      "\<forall>v \<in> snd ` set (sd_risk_factors b). 0 \<le> v \<and> v \<le> 1"
      "0 \<le> sd_overall_risk_score b" "sd_overall_risk_score b \<le> 1" by blast
    from b(2) have "\<forall>v \<in> snd ` set (sd_risk_factors b). 0 \<le> v \<and> v \<le> 100" by fastforce
    moreover from b(4) have "sd_overall_risk_score b \<le> 100" by simp
    ultimately show "\<exists>b. sample_borrower d = Inr b
             \<and> (\<forall>v \<in> snd ` set (sd_risk_factors b). 0 \<le> v \<and> v \<le> 100)
             \<and> 0 \<le> sd_overall_risk_score b \<and> sd_overall_risk_score b \<le> 100"
      using b(1,3) by blast
  qed
  have p4: "en_attrs_ok a \<longrightarrow>
      (\<exists>b. enhanced_borrower a = Inr b
           \<and> 0 \<le> en_demographic_risk b \<and> en_demographic_risk b \<le> 100
           \<and> 0 \<le> en_financial_risk b \<and> en_financial_risk b \<le> 100
           \<and> 0 \<le> en_asset_risk b \<and> en_asset_risk b \<le> 100
           \<and> 0 \<le> en_geographic_risk b \<and> en_geographic_risk b \<le> 100
           \<and> 0 \<le> en_social_risk b \<and> en_social_risk b \<le> 100
           \<and> 0 \<le> en_overall_risk_score b \<and> en_overall_risk_score b \<le> 100)"
  proof
    assume "en_attrs_ok a"
    from enhanced_borrower_bounds [OF this]
    obtain b where b: "enhanced_borrower a = Inr b"
      "0 \<le> en_demographic_risk b" "en_demographic_risk b \<le> 1"
      "0 \<le> en_financial_risk b" "en_financial_risk b \<le> 1"
      "0 \<le> en_asset_risk b" "en_asset_risk b \<le> 1"
      "0 \<le> en_geographic_risk b" "en_geographic_risk b \<le> 1"
      "0 \<le> en_social_risk b" "en_social_risk b \<le> 1"
      "0 \<le> en_overall_risk_score b" "en_overall_risk_score b \<le> 1" by blast
    have "en_demographic_risk b \<le> 100" "en_financial_risk b \<le> 100" "en_asset_risk b \<le> 100"
      "en_geographic_risk b \<le> 100" "en_social_risk b \<le> 100" "en_overall_risk_score b \<le> 100"
      using b by simp_all
    with b show "\<exists>b. enhanced_borrower a = Inr b
             \<and> 0 \<le> en_demographic_risk b \<and> en_demographic_risk b \<le> 100
             \<and> 0 \<le> en_financial_risk b \<and> en_financial_risk b \<le> 100
             \<and> 0 \<le> en_asset_risk b \<and> en_asset_risk b \<le> 100
             \<and> 0 \<le> en_geographic_risk b \<and> en_geographic_risk b \<le> 100
             \<and> 0 \<le> en_social_risk b \<and> en_social_risk b \<le> 100
             \<and> 0 \<le> en_overall_risk_score b \<and> en_overall_risk_score b \<le> 100"
      by blast
  qed
  have p5: "ax_attrs_ok x \<longrightarrow>
      (\<exists>b. analyzed_borrower x = Inr b
           \<and> 0 \<le> ax_demographic_risk b \<and> ax_demographic_risk b \<le> 100
           \<and> 0 \<le> ax_financial_risk b \<and> ax_financial_risk b \<le> 100
           \<and> 0 \<le> ax_geographic_risk b \<and> ax_geographic_risk b \<le> 100
           \<and> 0 \<le> ax_behavioral_risk b \<and> ax_behavioral_risk b \<le> 100
           \<and> 0 \<le> ax_overall_risk_score b \<and> ax_overall_risk_score b \<le> 100)"
  proof
    assume "ax_attrs_ok x"
    from analyzed_borrower_bounds [OF this]
    obtain b where b: "analyzed_borrower x = Inr b"
      "0 \<le> ax_demographic_risk b" "ax_demographic_risk b \<le> 1"
      "0 \<le> ax_financial_risk b" "ax_financial_risk b \<le> 1"
      "0 \<le> ax_geographic_risk b" "ax_geographic_risk b \<le> 1"
      "0 \<le> ax_behavioral_risk b" "ax_behavioral_risk b \<le> 1"
      "0 \<le> ax_overall_risk_score b" "ax_overall_risk_score b \<le> 1" by blast
    have "ax_demographic_risk b \<le> 100" "ax_financial_risk b \<le> 100"
      "ax_geographic_risk b \<le> 100" "ax_behavioral_risk b \<le> 100"
      "ax_overall_risk_score b \<le> 100"
      using b by simp_all
    with b show "\<exists>b. analyzed_borrower x = Inr b
             \<and> 0 \<le> ax_demographic_risk b \<and> ax_demographic_risk b \<le> 100
             \<and> 0 \<le> ax_financial_risk b \<and> ax_financial_risk b \<le> 100
             \<and> 0 \<le> ax_geographic_risk b \<and> ax_geographic_risk b \<le> 100
             \<and> 0 \<le> ax_behavioral_risk b \<and> ax_behavioral_risk b \<le> 100
             \<and> 0 \<le> ax_overall_risk_score b \<and> ax_overall_risk_score b \<le> 100"
      by blast
  qed
  show ?thesis by (intro conjI p1 p2 p3 p4 p5)
qed

lemma sd_example_ok: "sd_draws_ok sd_example"
  by (simp add: sd_draws_ok_def sd_example_def)

lemma sd_example_value:
  "sample_borrower sd_example =
     Inr \<lparr> sd_risk_factors = [(''age_risk'', 1 / 2), (''income_risk'', 3 / 5),
                               (''education_risk'', 2 / 5), (''credit_risk'', 1 / 2)],
           sd_overall_risk_score = 1 / 2, sd_risk_category = ''Medium'' \<rparr>"
  by code_simp

lemma en_example_ok: "en_attrs_ok (en_example 12.008)" "en_attrs_ok (en_example 11.992)"
  by (simp_all add: en_attrs_ok_def en_example_def)

lemma en_example_hi:
  "enhanced_borrower (en_example 12.008) =
     Inr \<lparr> en_demographic_risk = 1 / 8, en_financial_risk = 2 / 5, en_asset_risk = 11 / 20,
           en_geographic_risk = 5251 / 10000, en_social_risk = 2 / 5,
           en_overall_risk_score = 2 / 5, en_risk_category = ''Medium'' \<rparr>"
  by code_simp


lemma ax_example_ok: "ax_attrs_ok ax_example"
  by (simp add: ax_attrs_ok_def ax_example_def)

lemma ax_example_value:
  "analyzed_borrower ax_example =
     Inr \<lparr> ax_demographic_risk = 7 / 20, ax_financial_risk = 11 / 40,
           ax_geographic_risk = 1 / 2, ax_behavioral_risk = 2 / 5,
           ax_overall_risk_score = 1819 / 5000, ax_risk_category = ''Low'' \<rparr>"
  by code_simp

theorem risk_scores_within_0_100_witness:
  "cb_score_row cb_example \<in> set (ceg_calculate_comprehensive_risk_scores [cb_example])
   \<and> cb_financial_risk_score (cb_score_row cb_example) = 115 / 4
   \<and> cb_overall_risk_score (cb_score_row cb_example) \<le> 100
   \<and> eb_score_row eb_example \<in> set (ebg_calculate_comprehensive_risk_scores [eb_example])
   \<and> eb_asset_infrastructure_risk_score (eb_score_row eb_example) = 10
   \<and> eb_overall_risk_score (eb_score_row eb_example) \<le> 100
   \<and> sd_draws_ok sd_example
   \<and> sample_borrower sd_example =
       Inr \<lparr> sd_risk_factors = [(''age_risk'', 1 / 2), (''income_risk'', 3 / 5),
                                 (''education_risk'', 2 / 5), (''credit_risk'', 1 / 2)],
             sd_overall_risk_score = 1 / 2, sd_risk_category = ''Medium'' \<rparr>
   \<and> en_attrs_ok (en_example 12.008)
   \<and> enhanced_borrower (en_example 12.008) =
       Inr \<lparr> en_demographic_risk = 1 / 8, en_financial_risk = 2 / 5, en_asset_risk = 11 / 20,
             en_geographic_risk = 5251 / 10000, en_social_risk = 2 / 5,
             en_overall_risk_score = 2 / 5, en_risk_category = ''Medium'' \<rparr>
   \<and> ax_attrs_ok ax_example
   \<and> analyzed_borrower ax_example =
       Inr \<lparr> ax_demographic_risk = 7 / 20, ax_financial_risk = 11 / 40,
             ax_geographic_risk = 1 / 2, ax_behavioral_risk = 2 / 5,
             ax_overall_risk_score = 1819 / 5000, ax_risk_category = ''Low'' \<rparr>"
proof -
  note all = risk_scores_within_0_100 [of "[cb_example]" "[eb_example]" sd_example
      "en_example 12.008" ax_example]
  have m1: "cb_score_row cb_example \<in> set (ceg_calculate_comprehensive_risk_scores [cb_example])"
    by (simp add: ceg_calculate_comprehensive_risk_scores_def)
  have m2: "eb_score_row eb_example \<in> set (ebg_calculate_comprehensive_risk_scores [eb_example])"
    by (simp add: ebg_calculate_comprehensive_risk_scores_def)
  from all m1 have c: "cb_overall_risk_score (cb_score_row cb_example) \<le> 100" by blast
  from all m2 have e: "eb_overall_risk_score (eb_score_row eb_example) \<le> 100" by blast
  show ?thesis
    by (intro conjI m1 m2 c e cb_example_scores(2) eb_example_scores(3) sd_example_ok
        sd_example_value en_example_ok(1) en_example_hi ax_example_ok ax_example_value)
qed










section \<open>Properties of the population claim selection\<close>

lemma find_snoc:
  "find P (xs @ [x]) = (case find P xs of Some a \<Rightarrow> Some a | None \<Rightarrow> if P x then Some x else None)"
  by (induction xs) auto

lemma years_of_snoc:
  "years_of (xs @ [x]) =
     years_of xs @ (if claim_has_datavalue x
                    then (case claim_year x of None \<Rightarrow> [] | Some y \<Rightarrow> [y]) else [])"
  by (simp add: years_of_def map_filter_def split: option.splits)

lemma mem_years_of:
  "y \<in> set (years_of xs) \<longleftrightarrow> (\<exists>c \<in> set xs. claim_has_datavalue c \<and> claim_year c = Some y)"
  by (induction xs) (auto simp: years_of_def map_filter_simps split: option.splits)

text \<open>The closed form of the loop.\<close>

lemma best_of_claims_closed:
  "best_of_claims claims =
     (if years_of claims = [] then (find claim_has_datavalue claims, None)
      else (find (\<lambda>c. claim_has_datavalue c \<and> claim_year c = Some (Max (set (years_of claims))))
              claims,
            Some (Max (set (years_of claims)))))"
proof (induction claims rule: rev_induct)
  case Nil
  show ?case by (simp add: best_of_claims_def years_of_def map_filter_def)
next
  case (snoc x xs)
  let ?M = "Max (set (years_of xs))"
  let ?P = "\<lambda>m c. claim_has_datavalue c \<and> claim_year c = Some m"
  have step: "best_of_claims (xs @ [x]) = claim_step x (best_of_claims xs)"
    by (simp add: best_of_claims_def)
  show ?case
  proof (cases "claim_has_datavalue x")
    case False
    then have "years_of (xs @ [x]) = years_of xs" by (simp add: years_of_snoc)
    with False snoc show ?thesis
      by (simp add: step claim_step_def find_snoc split: option.splits)
  next
    case dv: True
    show ?thesis
    proof (cases "claim_year x")
      case None
      with dv have ys: "years_of (xs @ [x]) = years_of xs" by (simp add: years_of_snoc)
      show ?thesis
      proof (cases "years_of xs = []")
        case True
        with dv None snoc ys show ?thesis
          by (simp add: step claim_step_def find_snoc split: option.splits)
      next
        case False
        then have "?M \<in> set (years_of xs)" by simp
        then have "find (?P ?M) xs \<noteq> None"
          by (auto simp: mem_years_of find_None_iff)
        with dv None snoc ys False show ?thesis
          by (auto simp: step claim_step_def find_snoc split: option.splits)
      qed
    next
      case (Some y)
      with dv have ys: "years_of (xs @ [x]) = years_of xs @ [y]" by (simp add: years_of_snoc)
      show ?thesis
      proof (cases "years_of xs = []")
        case True
        then have "find (?P y) xs = None"
          using mem_years_of [of y xs] by (auto simp: find_None_iff)
        with dv Some snoc ys True show ?thesis
          by (simp add: step claim_step_def find_snoc)
      next
        case False
        then have Mmem: "?M \<in> set (years_of xs)" by simp
        have Mmax: "Max (set (years_of xs @ [y])) = max y ?M" using False by simp
        have ne: "years_of (xs @ [x]) \<noteq> []" using ys by simp
        from False snoc have ih: "best_of_claims xs = (find (?P ?M) xs, Some ?M)" by simp
        show ?thesis
        proof (cases "y > ?M")
          case True
          have "y \<notin> set (years_of xs)"
          proof
            assume "y \<in> set (years_of xs)"
            then have "y \<le> ?M" by simp
            with True show False by simp
          qed
          then have "find (?P y) xs = None"
            by (auto simp: mem_years_of find_None_iff)
          then have rhs: "find (?P y) (xs @ [x]) = Some x"
            using dv Some by (simp add: find_snoc)
          have newmax: "Max (set (years_of (xs @ [x]))) = y"
            unfolding ys Mmax using True by (simp add: max_def)
          have st: "best_of_claims (xs @ [x]) = (Some x, Some y)"
            unfolding step ih using dv Some True by (simp add: claim_step_def)
          show ?thesis unfolding st newmax rhs using ne by simp
        next
          case le: False
          from Mmem have "find (?P ?M) xs \<noteq> None"
            by (auto simp: mem_years_of find_None_iff)
          then have rhs: "find (?P ?M) (xs @ [x]) = find (?P ?M) xs"
            by (auto simp: find_snoc)
          have newmax: "Max (set (years_of (xs @ [x]))) = ?M"
            unfolding ys Mmax using le by (simp add: max_def)
          have st: "best_of_claims (xs @ [x]) = (find (?P ?M) xs, Some ?M)"
            unfolding step ih using dv Some le by (simp add: claim_step_def)
          show ?thesis unfolding st newmax rhs using ne by simp
        qed
      qed
    qed
  qed
qed

lemma population_of_claim_finite:
  assumes "claim_amount c = Some (Fin x)"
  shows "population_of_claim c y =
           Inr (Some \<lparr> pr_population = Some (if 0 \<le> x then \<lfloor>x\<rfloor> else \<lceil>x\<rceil>), pr_year = y \<rparr>)"
  using assms by (simp add: population_of_claim_def)

lemma years_of_empty_iff:
  "years_of claims = [] \<longleftrightarrow> (\<forall>c \<in> set claims. claim_has_datavalue c \<longrightarrow> claim_year c = None)"
proof
  assume e: "years_of claims = []"
  show "\<forall>c \<in> set claims. claim_has_datavalue c \<longrightarrow> claim_year c = None"
  proof (intro ballI impI)
    fix c assume c: "c \<in> set claims" "claim_has_datavalue c"
    show "claim_year c = None"
    proof (cases "claim_year c")
      case (Some y)
      with c have "y \<in> set (years_of claims)" by (auto simp: mem_years_of)
      with e show ?thesis by simp
    qed simp
  qed
next
  assume a: "\<forall>c \<in> set claims. claim_has_datavalue c \<longrightarrow> claim_year c = None"
  show "years_of claims = []"
  proof (rule ccontr)
    assume "years_of claims \<noteq> []"
    then obtain y where "y \<in> set (years_of claims)" by (cases "years_of claims") auto
    then obtain c where "c \<in> set claims" "claim_has_datavalue c" "claim_year c = Some y"
      by (auto simp: mem_years_of)
    with a show False by auto
  qed
qed

text \<open>
  Claim C8, as amended. Among the claims that have a datavalue (the loop skips the
  others): if one of them carries a readable P585 year, the function answers with the
  amount and year of the first claim whose year is the greatest of those years, wherever
  undated claims stand in the list; if none of them carries a year, it answers with the
  amount of the first claim that has a datavalue and with year \<open>None\<close>; and if no claim
  has a datavalue it returns \<open>None\<close>. The amount is returned as \<open>int(float(amount))\<close>,
  that is, truncated towards zero.
\<close>

theorem population_claim_selection:
  "((\<exists>c \<in> set claims. claim_has_datavalue c \<and> claim_year c \<noteq> None) \<longrightarrow>
      (\<exists>c y. c \<in> set claims \<and> claim_has_datavalue c \<and> claim_year c = Some y
         \<and> (\<forall>c' \<in> set claims. claim_has_datavalue c' \<longrightarrow>
               (\<forall>y'. claim_year c' = Some y' \<longrightarrow> y' \<le> y))
         \<and> find (\<lambda>c'. claim_has_datavalue c' \<and> claim_year c' = Some y) claims = Some c
         \<and> population_from_claims claims = population_of_claim c (Some y)
         \<and> (\<forall>x. claim_amount c = Some (Fin x) \<longrightarrow>
               population_from_claims claims =
                 Inr (Some \<lparr> pr_population = Some (if 0 \<le> x then \<lfloor>x\<rfloor> else \<lceil>x\<rceil>),
                             pr_year = Some y \<rparr>))))
   \<and> ((\<forall>c \<in> set claims. claim_has_datavalue c \<longrightarrow> claim_year c = None) \<longrightarrow>
      (case first_with_datavalue claims of
         None \<Rightarrow> population_from_claims claims = Inr None
       | Some c \<Rightarrow>
           population_from_claims claims = population_of_claim c None
           \<and> (\<forall>x. claim_amount c = Some (Fin x) \<longrightarrow>
                 population_from_claims claims =
                   Inr (Some \<lparr> pr_population = Some (if 0 \<le> x then \<lfloor>x\<rfloor> else \<lceil>x\<rceil>),
                               pr_year = None \<rparr>))))"
proof (intro conjI impI)
  assume dated: "\<exists>c \<in> set claims. claim_has_datavalue c \<and> claim_year c \<noteq> None"
  then have ne: "years_of claims \<noteq> []" by (auto simp: years_of_empty_iff)
  define M where "M = Max (set (years_of claims))"
  from ne have "M \<in> set (years_of claims)" unfolding M_def by simp
  then have "find (\<lambda>c'. claim_has_datavalue c' \<and> claim_year c' = Some M) claims \<noteq> None"
    by (auto simp: mem_years_of find_None_iff)
  then obtain c where c: "find (\<lambda>c'. claim_has_datavalue c' \<and> claim_year c' = Some M) claims = Some c"
    by blast
  then have cin: "c \<in> set claims" and cdv: "claim_has_datavalue c" and cy: "claim_year c = Some M"
    by (auto simp: find_Some_iff)
  have maxi: "\<forall>c' \<in> set claims. claim_has_datavalue c' \<longrightarrow> (\<forall>y'. claim_year c' = Some y' \<longrightarrow> y' \<le> M)"
  proof (intro ballI impI allI)
    fix c' y' assume "c' \<in> set claims" "claim_has_datavalue c'" "claim_year c' = Some y'"
    then have "y' \<in> set (years_of claims)" by (auto simp: mem_years_of)
    then show "y' \<le> M" unfolding M_def by simp
  qed
  from dated have "claims \<noteq> []" by auto
  then have res: "population_from_claims claims = population_of_claim c (Some M)"
    using ne c by (simp add: population_from_claims_def best_of_claims_closed M_def)
  have fin: "\<forall>x. claim_amount c = Some (Fin x) \<longrightarrow>
               population_from_claims claims =
                 Inr (Some \<lparr> pr_population = Some (if 0 \<le> x then \<lfloor>x\<rfloor> else \<lceil>x\<rceil>),
                             pr_year = Some M \<rparr>)"
    unfolding res by (simp add: population_of_claim_finite)
  from cin cdv cy maxi c res fin
  show "\<exists>c y. c \<in> set claims \<and> claim_has_datavalue c \<and> claim_year c = Some y
         \<and> (\<forall>c' \<in> set claims. claim_has_datavalue c' \<longrightarrow>
               (\<forall>y'. claim_year c' = Some y' \<longrightarrow> y' \<le> y))
         \<and> find (\<lambda>c'. claim_has_datavalue c' \<and> claim_year c' = Some y) claims = Some c
         \<and> population_from_claims claims = population_of_claim c (Some y)
         \<and> (\<forall>x. claim_amount c = Some (Fin x) \<longrightarrow>
               population_from_claims claims =
                 Inr (Some \<lparr> pr_population = Some (if 0 \<le> x then \<lfloor>x\<rfloor> else \<lceil>x\<rceil>),
                             pr_year = Some y \<rparr>))"
    by blast
next
  assume "\<forall>c \<in> set claims. claim_has_datavalue c \<longrightarrow> claim_year c = None"
  then have e: "years_of claims = []" by (simp add: years_of_empty_iff)
  show "case first_with_datavalue claims of
         None \<Rightarrow> population_from_claims claims = Inr None
       | Some c \<Rightarrow>
           population_from_claims claims = population_of_claim c None
           \<and> (\<forall>x. claim_amount c = Some (Fin x) \<longrightarrow>
                 population_from_claims claims =
                   Inr (Some \<lparr> pr_population = Some (if 0 \<le> x then \<lfloor>x\<rfloor> else \<lceil>x\<rceil>),
                               pr_year = None \<rparr>))"
  proof (cases "first_with_datavalue claims")
    case None
    then show ?thesis
      using e by (simp add: population_from_claims_def best_of_claims_closed
          first_with_datavalue_def)
  next
    case (Some c)
    then have "claims \<noteq> []" by (auto simp: first_with_datavalue_def)
    with Some e have res: "population_from_claims claims = population_of_claim c None"
      by (simp add: population_from_claims_def best_of_claims_closed first_with_datavalue_def)
    show ?thesis unfolding Some res by (simp add: population_of_claim_finite)
  qed
qed

theorem population_claim_selection_witness:
  "claim_has_datavalue (yearless_then_dated ! 1)
   \<and> claim_year (yearless_then_dated ! 1) = Some 2011
   \<and> population_from_claims yearless_then_dated =
       Inr (Some \<lparr> pr_population = Some 300, pr_year = Some 2011 \<rparr>)
   \<and> map claim_year (take 1 yearless_then_dated) = [None]
   \<and> population_from_claims (take 1 yearless_then_dated) =
       Inr (Some \<lparr> pr_population = Some 100, pr_year = None \<rparr>)"
proof -
  let ?second = "\<lparr> claim_has_datavalue = True, claim_amount = Some (Fin 300),
                   claim_year = Some 2011 \<rparr>"
  have h1: "\<exists>c \<in> set yearless_then_dated. claim_has_datavalue c \<and> claim_year c \<noteq> None"
    by (simp add: yearless_then_dated_def)
  from population_claim_selection [of yearless_then_dated] h1
  obtain c y where cin: "c \<in> set yearless_then_dated" and cy: "claim_year c = Some y"
    and maxi: "\<forall>c' \<in> set yearless_then_dated. claim_has_datavalue c' \<longrightarrow>
                 (\<forall>y'. claim_year c' = Some y' \<longrightarrow> y' \<le> y)"
    and f: "find (\<lambda>c'. claim_has_datavalue c' \<and> claim_year c' = Some y) yearless_then_dated
              = Some c"
    and res: "population_from_claims yearless_then_dated = population_of_claim c (Some y)"
    by blast
  have "?second \<in> set yearless_then_dated" by (simp add: yearless_then_dated_def)
  with maxi have "2011 \<le> y" by fastforce
  moreover from cin cy have "y = 2011 \<or> y = 2001" by (auto simp: yearless_then_dated_def)
  ultimately have y: "y = 2011" by auto
  from f have c: "c = ?second" unfolding y by (simp add: yearless_then_dated_def)
  have r1: "population_from_claims yearless_then_dated =
       Inr (Some \<lparr> pr_population = Some 300, pr_year = Some 2011 \<rparr>)"
    unfolding res c y by (simp add: population_of_claim_def)
  have h2: "\<forall>c \<in> set (take 1 yearless_then_dated). claim_has_datavalue c \<longrightarrow> claim_year c = None"
    by (simp add: yearless_then_dated_def)
  with population_claim_selection [of "take 1 yearless_then_dated"]
  have r2: "population_from_claims (take 1 yearless_then_dated) =
       Inr (Some \<lparr> pr_population = Some 100, pr_year = None \<rparr>)"
    by (simp add: yearless_then_dated_def first_with_datavalue_def population_of_claim_def)
  have g1: "claim_has_datavalue (yearless_then_dated ! 1)"
    and g2: "claim_year (yearless_then_dated ! 1) = Some 2011"
    and g3: "map claim_year (take 1 yearless_then_dated) = [None]"
    by (simp_all add: yearless_then_dated_def)
  show ?thesis by (intro conjI g1 g2 r1 g3 r2)
qed

text \<open>
  Claim C8 as stated fails when the only dated claim has no datavalue: the loop skips it,
  and the undated claim is returned although a claim with a readable year exists.
\<close>

theorem dated_claim_without_value_is_skipped:
  "dated_without_value \<noteq> []
   \<and> claim_year (hd dated_without_value) = Some 2020
   \<and> population_from_claims dated_without_value =
       Inr (Some \<lparr> pr_population = Some 100, pr_year = None \<rparr>)"
  by (simp add: dated_without_value_def population_from_claims_def best_of_claims_def
      claim_step_def population_of_claim_def)

section \<open>Properties of the extraction helpers\<close>
















section \<open>Properties of the lookups\<close>



lemma infobox_rows_source:
  "infobox_rows trs = Some i \<Longrightarrow> li_source i = ''wikipedia-infobox''"
  by (induction trs) (auto split: option.splits if_splits)

lemma body_paragraphs_source:
  "body_paragraphs ps = Some i \<Longrightarrow> li_source i = ''wikipedia-body''"
  by (induction ps) (auto split: option.splits if_splits)

lemma try_parse_infobox_source:
  "with_literacy (try_parse_infobox env sp) = Some i \<Longrightarrow> li_source i = ''wikipedia-infobox''"
  by (auto simp: with_literacy_def try_parse_infobox_def parse_infobox_for_literacy_def
      dest: infobox_rows_source split: option.splits if_splits)

lemma try_parse_body_source:
  "with_literacy (try_parse_body env sp) = Some i \<Longrightarrow> li_source i = ''wikipedia-body''"
  by (auto simp: with_literacy_def try_parse_body_def parse_body_for_literacy_def
      dest: body_paragraphs_source split: option.splits if_splits)

lemma literacy_from_page_cases:
  "(\<exists>i. with_literacy (try_parse_infobox env (le_parse_html env h)) = Some i
        \<and> literacy_from_page env out h =
            (out \<lparr> lo_literacy := li_literacy i, lo_literacy_year := li_year i,
                   lo_notes := Some ''wikipedia-infobox'' \<rparr>, [ParseInfobox]))
   \<or> (with_literacy (try_parse_infobox env (le_parse_html env h)) = None
      \<and> (\<exists>b. with_literacy (try_parse_body env (le_parse_html env h)) = Some b
             \<and> literacy_from_page env out h =
                 (out \<lparr> lo_literacy := li_literacy b, lo_literacy_year := li_year b,
                        lo_notes := Some ''wikipedia-body'' \<rparr>, [ParseInfobox, ParseBody])))
   \<or> (with_literacy (try_parse_infobox env (le_parse_html env h)) = None
      \<and> with_literacy (try_parse_body env (le_parse_html env h)) = None
      \<and> literacy_from_page env out h =
          (out \<lparr> lo_notes := Some ''no-literacy-found'' \<rparr>, [ParseInfobox, ParseBody]))"
proof (cases "with_literacy (try_parse_infobox env (le_parse_html env h))")
  case (Some i)
  with try_parse_infobox_source [OF Some] show ?thesis
    by (simp add: literacy_from_page_def Let_def)
next
  case None
  show ?thesis
  proof (cases "with_literacy (try_parse_body env (le_parse_html env h))")
    case (Some b)
    with None try_parse_body_source [OF Some] show ?thesis
      by (simp add: literacy_from_page_def Let_def)
  next
    case nb: None
    with None show ?thesis by (simp add: literacy_from_page_def Let_def)
  qed
qed








lemma lit_body_value:
  "get_literacy_for_place (lit_env_example soup_body_only) ''Chennai'' =
     (Inr \<lparr> lo_input_name = ''Chennai'', lo_wiki_title = Some ''Chennai'',
            lo_literacy = Some (4509 / 50), lo_literacy_year = Some 2011,
            lo_notes = Some ''wikipedia-body'' \<rparr>,
      [WikipediaSearch ''Chennai'', WikipediaFetch (Some ''Chennai''), ParseInfobox,
       ParseBody])"
  by code_simp




lemma election_lookup_year:
  assumes "election_lookup data place = Some hit"
  shows "eh_year hit = 2025"
  using assms
  by (auto simp: election_lookup_def Let_def split: if_splits option.splits prod.splits)

lemma election_lookup_in_year:
  assumes "election_lookup_in env place = Inr (Some hit)"
  shows "eh_year hit = 2025"
  using assms election_lookup_year
  by (auto simp: election_lookup_in_def split: sum.splits)

lemma population_from_wikidata_calls:
  "snd (population_from_wikidata env out place) = [WikidataSearch place]
   \<or> (\<exists>entity_id. snd (population_from_wikidata env out place) =
         [WikidataSearch place, WikidataClaims entity_id])"
  by (auto simp: population_from_wikidata_def Let_def split: sum.splits option.splits)

lemma population_from_wikidata_not_election:
  "po_notes (fst (population_from_wikidata env out place)) \<noteq> Some ''election-site''"
  by (auto simp: population_from_wikidata_def Let_def split: sum.splits option.splits)

text \<open>
  Claim C10. \<open>get_population_for_place\<close> answers with the election-site value, the year
  2025 and the note \<open>election-site\<close>, and calls no Wikidata service, whenever
  \<open>election_lookup\<close> yields a match; when it yields none (or raises) the Wikidata search
  is the first call and the note is not \<open>election-site\<close>. \<open>get_literacy_for_place\<close>, once
  the page is fetched, answers with the infobox value and the note \<open>wikipedia-infobox\<close>
  without running the body parser whenever the infobox parser yields a percentage; only
  otherwise it runs the body parser, and the note is then \<open>wikipedia-body\<close> or
  \<open>no-literacy-found\<close>.
\<close>

theorem source_precedence:
  "(\<forall>hit. election_lookup_in penv place = Inr (Some hit) \<longrightarrow>
      get_population_for_place penv place =
        (\<lparr> po_input_name = place, po_wikidata_id = None, po_wikidata_label = None,
           po_population = Some (eh_population hit), po_population_year = Some 2025,
           po_notes = Some ''election-site'' \<rparr>, []))
   \<and> ((\<forall>hit. election_lookup_in penv place \<noteq> Inr (Some hit)) \<longrightarrow>
        hd (snd (get_population_for_place penv place)) = WikidataSearch place
        \<and> po_notes (fst (get_population_for_place penv place)) \<noteq> Some ''election-site'')
   \<and> (wiki_search lenv place = Inr (Some s) \<and> s \<noteq> []
        \<and> fetch_wiki_html lenv (map_of s ''title'') = Inr (Some h) \<and> h \<noteq> [] \<longrightarrow>
        (\<forall>i. with_literacy (try_parse_infobox lenv (le_parse_html lenv h)) = Some i \<longrightarrow>
           get_literacy_for_place lenv place =
             (Inr \<lparr> lo_input_name = place, lo_wiki_title = map_of s ''title'',
                    lo_literacy = li_literacy i, lo_literacy_year = li_year i,
                    lo_notes = Some ''wikipedia-infobox'' \<rparr>,
              [WikipediaSearch place, WikipediaFetch (map_of s ''title''), ParseInfobox]))
        \<and> (with_literacy (try_parse_infobox lenv (le_parse_html lenv h)) = None \<longrightarrow>
             (\<exists>out. get_literacy_for_place lenv place =
                (Inr out, [WikipediaSearch place, WikipediaFetch (map_of s ''title''),
                           ParseInfobox, ParseBody])
              \<and> (lo_notes out = Some ''wikipedia-body''
                  \<or> lo_notes out = Some ''no-literacy-found''))))"
proof (intro conjI allI impI)
  fix hit assume e: "election_lookup_in penv place = Inr (Some hit)"
  from election_lookup_in_year [OF e] e
  show "get_population_for_place penv place =
        (\<lparr> po_input_name = place, po_wikidata_id = None, po_wikidata_label = None,
           po_population = Some (eh_population hit), po_population_year = Some 2025,
           po_notes = Some ''election-site'' \<rparr>, [])"
    by (simp add: get_population_for_place_def Let_def)
next
  assume n: "\<forall>hit. election_lookup_in penv place \<noteq> Inr (Some hit)"
  define out0 where "out0 = \<lparr> po_input_name = place, po_wikidata_id = None,
      po_wikidata_label = None, po_population = None, po_population_year = None,
      po_notes = None \<rparr>"
  from n have "(case election_lookup_in penv place of Inl e \<Rightarrow> None | Inr r \<Rightarrow> r) = None"
    by (cases "election_lookup_in penv place") auto
  then have eq: "get_population_for_place penv place = population_from_wikidata penv out0 place"
    by (simp add: get_population_for_place_def Let_def out0_def)
  show "hd (snd (get_population_for_place penv place)) = WikidataSearch place"
    unfolding eq using population_from_wikidata_calls [of penv out0 place] by auto
  show "po_notes (fst (get_population_for_place penv place)) \<noteq> Some ''election-site''"
    unfolding eq by (rule population_from_wikidata_not_election)
next
  fix i
  assume a: "wiki_search lenv place = Inr (Some s) \<and> s \<noteq> []
        \<and> fetch_wiki_html lenv (map_of s ''title'') = Inr (Some h) \<and> h \<noteq> []"
    and i: "with_literacy (try_parse_infobox lenv (le_parse_html lenv h)) = Some i"
  define out0 where "out0 = \<lparr> lo_input_name = place, lo_wiki_title = map_of s ''title'',
      lo_literacy = None, lo_literacy_year = None, lo_notes = None \<rparr>"
  from a have eq: "get_literacy_for_place lenv place =
      (case literacy_from_page lenv out0 h of (out, parses) \<Rightarrow>
         (Inr out, [WikipediaSearch place, WikipediaFetch (map_of s ''title'')] @ parses))"
    by (simp add: get_literacy_for_place_def Let_def truthy_def out0_def)
  from literacy_from_page_cases [of lenv h out0] i
  have "literacy_from_page lenv out0 h =
      (out0 \<lparr> lo_literacy := li_literacy i, lo_literacy_year := li_year i,
              lo_notes := Some ''wikipedia-infobox'' \<rparr>, [ParseInfobox])"
    by auto
  then show "get_literacy_for_place lenv place =
             (Inr \<lparr> lo_input_name = place, lo_wiki_title = map_of s ''title'',
                    lo_literacy = li_literacy i, lo_literacy_year = li_year i,
                    lo_notes = Some ''wikipedia-infobox'' \<rparr>,
              [WikipediaSearch place, WikipediaFetch (map_of s ''title''), ParseInfobox])"
    unfolding eq by (simp add: out0_def)
next
  assume a: "wiki_search lenv place = Inr (Some s) \<and> s \<noteq> []
        \<and> fetch_wiki_html lenv (map_of s ''title'') = Inr (Some h) \<and> h \<noteq> []"
    and n: "with_literacy (try_parse_infobox lenv (le_parse_html lenv h)) = None"
  define out0 where "out0 = \<lparr> lo_input_name = place, lo_wiki_title = map_of s ''title'',
      lo_literacy = None, lo_literacy_year = None, lo_notes = None \<rparr>"
  from a have eq: "get_literacy_for_place lenv place =
      (case literacy_from_page lenv out0 h of (out, parses) \<Rightarrow>
         (Inr out, [WikipediaSearch place, WikipediaFetch (map_of s ''title'')] @ parses))"
    by (simp add: get_literacy_for_place_def Let_def truthy_def out0_def)
  from literacy_from_page_cases [of lenv h out0] n
  obtain out where "literacy_from_page lenv out0 h = (out, [ParseInfobox, ParseBody])"
    and "lo_notes out = Some ''wikipedia-body'' \<or> lo_notes out = Some ''no-literacy-found''"
    by auto
  then show "\<exists>out. get_literacy_for_place lenv place =
                (Inr out, [WikipediaSearch place, WikipediaFetch (map_of s ''title''),
                           ParseInfobox, ParseBody])
              \<and> (lo_notes out = Some ''wikipedia-body''
                  \<or> lo_notes out = Some ''no-literacy-found'')"
    unfolding eq by simp
qed

theorem source_precedence_witness:
  "election_lookup_in pop_env_example ''Anna Nagar'' =
     Inr (Some \<lparr> eh_population = 250000, eh_year = 2025 \<rparr>)
   \<and> get_population_for_place pop_env_example ''Anna Nagar'' =
       (\<lparr> po_input_name = ''Anna Nagar'', po_wikidata_id = None, po_wikidata_label = None,
          po_population = Some 250000, po_population_year = Some 2025,
          po_notes = Some ''election-site'' \<rparr>, [])
   \<and> election_lookup_in pop_env_example ''Chennai'' = Inr None
   \<and> hd (snd (get_population_for_place pop_env_example ''Chennai'')) = WikidataSearch ''Chennai''
   \<and> get_literacy_for_place (lit_env_example soup_infobox) ''Chennai'' =
       (Inr \<lparr> lo_input_name = ''Chennai'', lo_wiki_title = Some ''Chennai'',
              lo_literacy = Some (4509 / 50), lo_literacy_year = Some 2011,
              lo_notes = Some ''wikipedia-infobox'' \<rparr>,
        [WikipediaSearch ''Chennai'', WikipediaFetch (Some ''Chennai''), ParseInfobox])
   \<and> with_literacy (try_parse_infobox (lit_env_example soup_body_only) soup_body_only) = None
   \<and> snd (get_literacy_for_place (lit_env_example soup_body_only) ''Chennai'') =
       [WikipediaSearch ''Chennai'', WikipediaFetch (Some ''Chennai''), ParseInfobox, ParseBody]"
proof -
  let ?item = "[(''title'', ''Chennai''), (''pageid'', ''45139'')]"
  have e1: "election_lookup_in pop_env_example ''Anna Nagar'' =
     Inr (Some \<lparr> eh_population = 250000, eh_year = 2025 \<rparr>)" by code_simp
  from source_precedence [where penv = pop_env_example and place = "''Anna Nagar''"
      and lenv = "lit_env_example soup_infobox" and s = ?item and h = "''<html>''",
      THEN conjunct1] e1
  have g1: "get_population_for_place pop_env_example ''Anna Nagar'' =
       (\<lparr> po_input_name = ''Anna Nagar'', po_wikidata_id = None, po_wikidata_label = None,
          po_population = Some 250000, po_population_year = Some 2025,
          po_notes = Some ''election-site'' \<rparr>, [])"
    by simp
  have e2: "election_lookup_in pop_env_example ''Chennai'' = Inr None" by code_simp
  then have "\<forall>hit. election_lookup_in pop_env_example ''Chennai'' \<noteq> Inr (Some hit)" by simp
  with source_precedence [where penv = pop_env_example and place = "''Chennai''"
      and lenv = "lit_env_example soup_infobox" and s = ?item and h = "''<html>''",
      THEN conjunct2, THEN conjunct1]
  have g2: "hd (snd (get_population_for_place pop_env_example ''Chennai'')) =
      WikidataSearch ''Chennai''"
    by blast
  have s1: "wiki_search (lit_env_example soup_infobox) ''Chennai'' = Inr (Some ?item)"
    and f1: "fetch_wiki_html (lit_env_example soup_infobox) (map_of ?item ''title'') =
      Inr (Some ''<html>'')"
    and p1: "le_parse_html (lit_env_example soup_infobox) ''<html>'' = soup_infobox"
    and t1: "map_of ?item ''title'' = Some ''Chennai''"
    by (simp_all add: wiki_search_def fetch_wiki_html_def lit_env_example_def)
  have i1: "with_literacy (try_parse_infobox (lit_env_example soup_infobox) soup_infobox) =
      Some \<lparr> li_literacy = Some (4509 / 50), li_year = Some 2011,
             li_source = ''wikipedia-infobox'', li_raw = ''90.18% (2011)'' \<rparr>"
    by code_simp
  note sp3 = source_precedence [where penv = pop_env_example
      and lenv = "lit_env_example soup_infobox" and place = "''Chennai''" and s = ?item
      and h = "''<html>''", THEN conjunct2, THEN conjunct2]
  from sp3 s1 f1 i1
  have g3: "get_literacy_for_place (lit_env_example soup_infobox) ''Chennai'' =
       (Inr \<lparr> lo_input_name = ''Chennai'', lo_wiki_title = Some ''Chennai'',
              lo_literacy = Some (4509 / 50), lo_literacy_year = Some 2011,
              lo_notes = Some ''wikipedia-infobox'' \<rparr>,
        [WikipediaSearch ''Chennai'', WikipediaFetch (Some ''Chennai''), ParseInfobox])"
    by (simp add: p1)
  have s2: "wiki_search (lit_env_example soup_body_only) ''Chennai'' = Inr (Some ?item)"
    and f2: "fetch_wiki_html (lit_env_example soup_body_only) (map_of ?item ''title'') =
      Inr (Some ''<html>'')"
    and p2: "le_parse_html (lit_env_example soup_body_only) ''<html>'' = soup_body_only"
    by (simp_all add: wiki_search_def fetch_wiki_html_def lit_env_example_def)
  have i2: "with_literacy (try_parse_infobox (lit_env_example soup_body_only) soup_body_only) =
      None"
    by code_simp
  note sp4 = source_precedence [where penv = pop_env_example
      and lenv = "lit_env_example soup_body_only" and place = "''Chennai''" and s = ?item
      and h = "''<html>''", THEN conjunct2, THEN conjunct2]
  from sp4 s2 f2 i2
  have g4: "snd (get_literacy_for_place (lit_env_example soup_body_only) ''Chennai'') =
       [WikipediaSearch ''Chennai'', WikipediaFetch (Some ''Chennai''), ParseInfobox, ParseBody]"
    by (auto simp: p2)
  show ?thesis by (intro conjI e1 g1 e2 g2 g3 i2 g4)
qed

section \<open>Properties of process\_excel\<close>

lemma population_rows_length: "length (population_rows envs idx places) = length places"
  by (induction places arbitrary: idx) simp_all

lemma population_rows_nth:
  assumes "i < length places"
  shows "population_rows envs idx places ! i =
           (if py_strip (places ! i) = [] then (population_empty_input (places ! i), [])
            else get_population_for_place (envs (idx + i)) (places ! i))"
  using assms
proof (induction places arbitrary: idx i)
  case Nil
  then show ?case by simp
next
  case (Cons p ps)
  show ?case
  proof (cases i)
    case 0
    then show ?thesis by simp
  next
    case (Suc j)
    with Cons.prems have "j < length ps" by simp
    from Cons.IH [OF this, of "Suc idx"] Suc show ?thesis by simp
  qed
qed

lemma literacy_rows_length: "length (literacy_rows envs idx places) = length places"
  by (induction places arbitrary: idx) simp_all

lemma literacy_rows_nth:
  assumes "i < length places"
  shows "literacy_rows envs idx places ! i =
           (if py_strip (places ! i) = [] then (literacy_empty_input (places ! i), [])
            else literacy_row (envs (idx + i)) (places ! i))"
  using assms
proof (induction places arbitrary: idx i)
  case Nil
  then show ?case by simp
next
  case (Cons p ps)
  show ?case
  proof (cases i)
    case 0
    then show ?thesis by simp
  next
    case (Suc j)
    with Cons.prems have "j < length ps" by simp
    from Cons.IH [OF this, of "Suc idx"] Suc show ?thesis by simp
  qed
qed

text \<open>
  On a sheet with at least one column and at least one row both agents write the
  original columns unchanged, followed by result columns with one entry per input row in
  the order of the input; the entry of row \<open>i\<close> is the empty-input record, reached without
  any call, when the text of the first column is blank, and the lookup of that text
  otherwise; the calls made are those of the lookups, row after row.
\<close>

lemma population_process_excel_rows:
  assumes "first_sheet input = Inr (c # cs)" and "snd c \<noteq> []"
  shows "\<exists>out. population_process_excel envs input =
                 (Inr out, concat (map snd (population_rows envs 1 (map cell_str (snd c)))))
           \<and> pf_original out = c # cs
           \<and> length (pf_wikidata_id out) = length (snd c)
           \<and> length (pf_wikidata_label out) = length (snd c)
           \<and> length (pf_population out) = length (snd c)
           \<and> length (pf_population_year out) = length (snd c)
           \<and> length (pf_notes out) = length (snd c)
           \<and> (\<forall>i < length (snd c).
                 (py_strip (cell_str (snd c ! i)) = [] \<longrightarrow>
                    pf_notes out ! i = Some ''empty-input'' \<and> pf_population out ! i = None
                    \<and> pf_population_year out ! i = None \<and> pf_wikidata_id out ! i = None
                    \<and> snd (population_rows envs 1 (map cell_str (snd c)) ! i) = [])
                 \<and> (py_strip (cell_str (snd c ! i)) \<noteq> [] \<longrightarrow>
                    pf_notes out ! i =
                      po_notes (fst (get_population_for_place (envs (Suc i)) (cell_str (snd c ! i))))
                    \<and> pf_population out ! i =
                      po_population (fst (get_population_for_place (envs (Suc i))
                                            (cell_str (snd c ! i))))))"
proof -
  define places where "places = map cell_str (snd c)"
  define rows where "rows = population_rows envs 1 places"
  have len: "length rows = length (snd c)"
    by (simp add: rows_def places_def population_rows_length)
  with assms(2) have ne: "map fst rows \<noteq> []" by auto
  have nth: "rows ! i =
           (if py_strip (cell_str (snd c ! i)) = []
            then (population_empty_input (cell_str (snd c ! i)), [])
            else get_population_for_place (envs (Suc i)) (cell_str (snd c ! i)))"
    if "i < length (snd c)" for i
    using population_rows_nth [of i places envs 1] that by (simp add: rows_def places_def)
  have eq: "population_process_excel envs input =
      (Inr \<lparr> pf_original = c # cs,
             pf_wikidata_id = map po_wikidata_id (map fst rows),
             pf_wikidata_label = map po_wikidata_label (map fst rows),
             pf_population = map po_population (map fst rows),
             pf_population_year = map po_population_year (map fst rows),
             pf_notes = map po_notes (map fst rows) \<rparr>,
       concat (map snd rows))"
    using assms(1) ne
    by (simp add: population_process_excel_def Let_def rows_def places_def)
  show ?thesis
    unfolding eq rows_def [symmetric] places_def [symmetric]
    using len nth by (simp add: population_empty_input_def)
qed

lemma literacy_process_excel_rows:
  assumes "first_sheet input = Inr (c # cs)" and "snd c \<noteq> []"
  shows "\<exists>out. literacy_process_excel envs input =
                 (Inr out, concat (map snd (literacy_rows envs 1 (map cell_str (snd c)))))
           \<and> lf_original out = c # cs
           \<and> length (lf_wiki_title out) = length (snd c)
           \<and> length (lf_literacy out) = length (snd c)
           \<and> length (lf_literacy_year out) = length (snd c)
           \<and> length (lf_notes out) = length (snd c)
           \<and> (\<forall>i < length (snd c).
                 (py_strip (cell_str (snd c ! i)) = [] \<longrightarrow>
                    lf_notes out ! i = Some ''empty-input'' \<and> lf_literacy out ! i = None
                    \<and> lf_literacy_year out ! i = None \<and> lf_wiki_title out ! i = None
                    \<and> snd (literacy_rows envs 1 (map cell_str (snd c)) ! i) = [])
                 \<and> (py_strip (cell_str (snd c ! i)) \<noteq> [] \<longrightarrow>
                    lf_notes out ! i =
                      lo_notes (fst (literacy_row (envs (Suc i)) (cell_str (snd c ! i))))
                    \<and> lf_literacy out ! i =
                      lo_literacy (fst (literacy_row (envs (Suc i)) (cell_str (snd c ! i))))))"
proof -
  define places where "places = map cell_str (snd c)"
  define rows where "rows = literacy_rows envs 1 places"
  have len: "length rows = length (snd c)"
    by (simp add: rows_def places_def literacy_rows_length)
  with assms(2) have ne: "map fst rows \<noteq> []" by auto
  have nth: "rows ! i =
           (if py_strip (cell_str (snd c ! i)) = []
            then (literacy_empty_input (cell_str (snd c ! i)), [])
            else literacy_row (envs (Suc i)) (cell_str (snd c ! i)))"
    if "i < length (snd c)" for i
    using literacy_rows_nth [of i places envs 1] that by (simp add: rows_def places_def)
  have eq: "literacy_process_excel envs input =
      (Inr \<lparr> lf_original = c # cs,
             lf_wiki_title = map lo_wiki_title (map fst rows),
             lf_literacy = map lo_literacy (map fst rows),
             lf_literacy_year = map lo_literacy_year (map fst rows),
             lf_notes = map lo_notes (map fst rows) \<rparr>,
       concat (map snd rows))"
    using assms(1) ne
    by (simp add: literacy_process_excel_def Let_def rows_def places_def)
  show ?thesis
    unfolding eq rows_def [symmetric] places_def [symmetric]
    using len nth by (simp add: literacy_empty_input_def)
qed

text \<open>
  Claim C9 at a sheet that has a header row and no data rows: the sheet has one column,
  yet neither agent writes an output. The list of results is empty, the frame built from
  it has no column \<open>input_name\<close>, and dropping that column raises \<open>KeyError\<close>.
\<close>

theorem process_excel_header_only_raises:
  "population_process_excel penvs (Frame sheet_header_only) =
     (Inl (KeyError ''input_name not found in axis''), [])
   \<and> literacy_process_excel lenvs (Frame sheet_header_only) =
     (Inl (KeyError ''input_name not found in axis''), [])"
  by (simp add: population_process_excel_def literacy_process_excel_def first_sheet_def
      sheet_header_only_def)

end
